theory Spec2Isabelle
  imports Main
begin

section \<open>folly::coro::Task: data model\<close>

text \<open>
  A shallow embedding of \<^verbatim>\<open>folly/coro/Task.h\<close>. Coroutine frames live in an explicit
  store indexed by handles; a \<^verbatim>\<open>coroutine_handle\<close> is a handle or null. A member of
  Task.h is embedded as a function of the same name that takes the store and returns
  the store after the call; an rvalue-qualified member also returns the object it was
  called on, as the call leaves it. A \<^verbatim>\<open>DCHECK\<close> that fails aborts the process, and a
  dereference of a null or dangling handle is undefined behaviour: both are values of
  \<open>fault\<close>. What Task.h uses but does not define (the executor, the cancellation
  token, the request context, the async stack, the scope-exit task, the detached inline
  task) is modelled as far as Task.h depends on it, and said so where it is defined.
\<close>

type_synonym handle = nat

datatype exception_wrapper = OperationCancelled | UserException string

text \<open>\<^verbatim>\<open>folly::Try<T>\<close>, with \<^verbatim>\<open>T\<close> instantiated by \<open>int\<close>.\<close>

datatype Try = TryEmpty | TryValue int | TryException exception_wrapper

fun hasException :: "Try \<Rightarrow> bool" where
  "hasException (TryException ex) = True"
| "hasException t = False"

text \<open>
  \<^verbatim>\<open>folly::Executor\<close> is declared outside Task.h. An executor is its identity together
  with the answers of the four \<^verbatim>\<open>dynamic_cast\<close>s that Task.h applies to it.
  \<^verbatim>\<open>Executor::KeepAlive<>\<close> is an executor or empty.
\<close>

record Executor =
  executorId :: nat
  isInlineExecutor :: bool
  isQueuedImmediateExecutor :: bool
  isInlineLikeExecutor :: bool
  isWeakRefExecutor :: bool

type_synonym KeepAlive = "Executor option"

text \<open>
  A \<^verbatim>\<open>folly::CancellationToken\<close> refers to a shared cancellation state, or is empty
  (default constructed). Copies of a token refer to the same state.
\<close>

type_synonym CancellationToken = "nat option"

datatype BypassExceptionThrowing = INACTIVE | ACTIVE | REQUESTED

record AsyncStackFrame =
  parentFrame :: "handle option"
  returnAddressSet :: bool

text \<open>The members of \<^verbatim>\<open>TaskPromiseBase\<close> and \<^verbatim>\<open>TaskPromiseCrtpBase::result_\<close>.\<close>

record TaskPromise =
  continuation :: "handle option"
  asyncFrame :: AsyncStackFrame
  executor :: KeepAlive
  cancelToken :: CancellationToken
  scopeExit :: "handle option"
  hasCancelTokenOverride :: bool
  bypassExceptionThrowing :: BypassExceptionThrowing
  result :: Try

text \<open>
  Modelled from the spec: \<^verbatim>\<open>ScopeExitTaskPromiseBase\<close> (folly/coro/ScopeExit.h) is not
  part of Task.h. Its \<^verbatim>\<open>setContext\<close> receives the saved continuation, the diagnostic
  frame, the bound executor and the error of the primary result, if any.
\<close>

record ScopeExitTaskPromise =
  seContinuation :: "handle option"
  seAsyncFrame :: "handle option"
  seExecutor :: KeepAlive
  seException :: "exception_wrapper option"

definition setContext ::
  "handle option \<Rightarrow> handle \<Rightarrow> KeepAlive \<Rightarrow> exception_wrapper option \<Rightarrow>
   ScopeExitTaskPromise \<Rightarrow> ScopeExitTaskPromise" where
  "setContext c frame ex e se =
     se\<lparr>seContinuation := c, seAsyncFrame := Some frame, seExecutor := ex, seException := e\<rparr>"

text \<open>The two owning handles. Both hold one \<^verbatim>\<open>coroutine_handle\<close>, \<^verbatim>\<open>coro_\<close>.\<close>

datatype Task = Task (Task_coro: "handle option")

datatype TaskWithExecutor = TaskWithExecutor (TaskWithExecutor_coro: "handle option")

text \<open>
  The body of a Task coroutine, as the sequence of the operations that Task.h gives a
  meaning to: \<^verbatim>\<open>co_return\<close>, an escaping exception, \<^verbatim>\<open>co_yield co_error\<close>,
  \<^verbatim>\<open>co_yield co_result\<close>, \<^verbatim>\<open>co_await co_safe_point\<close>, \<^verbatim>\<open>co_attachScopeExit\<close>,
  a change of the ambient request context, a suspension on a foreign awaitable, and
  \<^verbatim>\<open>co_await\<close> of a child Task (the flag says whether it is wrapped in
  \<^verbatim>\<open>co_nothrow\<close>; the rest of the body receives the child's \<^verbatim>\<open>Try\<close>).
\<close>

datatype body =
    CoReturn int
  | Throw exception_wrapper
  | CoYieldError exception_wrapper
  | CoYieldResult Try
  | CoSafePoint body
  | CoAttachScopeExit handle body
  | SetRequestContext nat body
  | CoSuspend body
  | CoAwaitTask bool Task "Try \<Rightarrow> body"

text \<open>Where a Task coroutine is suspended.\<close>

datatype suspend_point =
    InitialSuspend body
  | SuspendedAt body
  | AwaitingTask "handle option" "Try \<Rightarrow> body"
  | FinalSuspend

text \<open>
  A completion callback \<^verbatim>\<open>F&& tryCallback\<close> is a callable that may carry state of its
  own: given the arguments of its earlier calls and the argument of this call, whether
  the call returns normally (\<open>None\<close>) or throws.
\<close>

type_synonym callback = "Try list \<Rightarrow> Try \<Rightarrow> exception_wrapper option"

text \<open>
  The coroutine frames of the store: a Task coroutine (its promise and where it is
  suspended); the detached coroutine of \<^verbatim>\<open>startImpl\<close>/\<^verbatim>\<open>startInlineImpl\<close>, suspended in
  its \<^verbatim>\<open>co_await\<close> (which of the two, the awaiter's \<^verbatim>\<open>coro_\<close> and the callback); a
  scope-exit task; any other coroutine.
\<close>

datatype detached_kind = OfStartImpl | OfStartInlineImpl

datatype coroutine =
    TaskCoro TaskPromise suspend_point
  | DetachedCoro detached_kind "handle option" callback
  | ScopeExitCoro ScopeExitTaskPromise
  | OtherCoro

datatype event = CallbackInvoked Try | LogError string

record build_config =
  kIsDebug :: bool
  dcheckIsOn :: bool

text \<open>A unit of work given to \<^verbatim>\<open>Executor::add\<close> by \<^verbatim>\<open>TaskWithExecutor::Awaiter\<close>:
  the lambda's captures \<^verbatim>\<open>coro\<close> and \<^verbatim>\<open>ctx\<close>, and the executor that received it.\<close>

record work_item =
  workExecutor :: nat
  workCoro :: handle
  workCtx :: nat

text \<open>
  The state that the operations of Task.h act on: the build parameters, the coroutine
  frames, the cancellation states on which cancellation has been requested, the ambient
  request context of the thread, the work given to executors and not yet run, the
  active leaf of the async stack, and what has been observed so far (calls of
  completion callbacks, error reports).
\<close>

record world =
  build :: build_config
  heap :: "handle \<rightharpoonup> coroutine"
  cancellationRequested :: "nat set"
  requestContext :: nat
  executorQueue :: "work_item list"
  activeFrame :: "handle option"
  events :: "event list"

text \<open>The arguments of the calls of completion callbacks so far, in order.\<close>

fun callback_argument :: "event \<Rightarrow> Try option" where
  "callback_argument (CallbackInvoked r) = Some r"
| "callback_argument (LogError msg) = None"

definition callback_invocations :: "world \<Rightarrow> Try list" where
  "callback_invocations w = List.map_filter callback_argument (events w)"

datatype fault = DCheckFailure | InvalidHandle | Terminate

definition bind_fault :: "fault + 'a \<Rightarrow> ('a \<Rightarrow> fault + 'b) \<Rightarrow> fault + 'b" where
  "bind_fault m f = (case m of Inl e \<Rightarrow> Inl e | Inr x \<Rightarrow> f x)"

text \<open>\<^verbatim>\<open>DCHECK(c)\<close> aborts when debug checks are compiled in and \<open>c\<close> is false.\<close>

definition dcheck_fails :: "world \<Rightarrow> bool \<Rightarrow> bool" where
  "dcheck_fails w c = (dcheckIsOn (build w) \<and> \<not> c)"

text \<open>\<^verbatim>\<open>coro_.promise()\<close> for a handle that should own a Task coroutine.\<close>

definition promise_of :: "world \<Rightarrow> handle option \<Rightarrow> fault + (handle \<times> TaskPromise \<times> suspend_point)" where
  "promise_of w c =
     (case c of
        None \<Rightarrow> Inl InvalidHandle
      | Some h \<Rightarrow>
          (case heap w h of
             Some (TaskCoro p sp) \<Rightarrow> Inr (h, p, sp)
           | _ \<Rightarrow> Inl InvalidHandle))"

definition set_promise :: "handle \<Rightarrow> TaskPromise \<Rightarrow> suspend_point \<Rightarrow> world \<Rightarrow> world" where
  "set_promise h p sp w = w\<lparr>heap := (heap w)(h \<mapsto> TaskCoro p sp)\<rparr>"

text \<open>\<^verbatim>\<open>coroutine_handle::destroy\<close>: the frame is released.\<close>

definition destroy :: "handle \<Rightarrow> world \<Rightarrow> world" where
  "destroy h w = w\<lparr>heap := (heap w)(h := None)\<rparr>"

section \<open>TaskPromiseBase\<close>

text \<open>
  Modelled from the spec: the cancellation source is an external collaborator, of which
  this core only reads \<^verbatim>\<open>isCancellationRequested()\<close>. A token reports cancellation when
  it refers to a state on which cancellation has been requested; the empty token never
  does.
\<close>

definition isCancellationRequested :: "world \<Rightarrow> CancellationToken \<Rightarrow> bool" where
  "isCancellationRequested w t = (case t of None \<Rightarrow> False | Some s \<Rightarrow> s \<in> cancellationRequested w)"

definition setCancelToken :: "CancellationToken \<Rightarrow> TaskPromise \<Rightarrow> TaskPromise" where
  "setCancelToken t p =
     (if \<not> hasCancelTokenOverride p
      then p\<lparr>cancelToken := t, hasCancelTokenOverride := True\<rparr>
      else p)"

definition unhandled_exception :: "exception_wrapper \<Rightarrow> TaskPromise \<Rightarrow> TaskPromise" where
  "unhandled_exception ex p = p\<lparr>result := TryException ex\<rparr>"

definition return_value :: "int \<Rightarrow> TaskPromise \<Rightarrow> TaskPromise" where
  "return_value v p = p\<lparr>result := TryValue v\<rparr>"

text \<open>\<^verbatim>\<open>yield_value\<close> stores the result; its caller then awaits \<^verbatim>\<open>final_suspend()\<close>.\<close>

definition yield_value_co_error :: "exception_wrapper \<Rightarrow> TaskPromise \<Rightarrow> TaskPromise" where
  "yield_value_co_error ex p = p\<lparr>result := TryException ex\<rparr>"

definition yield_value_co_result :: "Try \<Rightarrow> TaskPromise \<Rightarrow> TaskPromise" where
  "yield_value_co_result t p = p\<lparr>result := t\<rparr>"

text \<open>
  \<^verbatim>\<open>do_safe_point\<close> returns a \<^verbatim>\<open>variant_awaitable<FinalAwaiter, ready_awaitable<>>\<close>:
  which alternative, and the promise after the call.
\<close>

datatype safe_point_awaitable = FinalAwaiterAlternative | ReadyAlternative

definition do_safe_point :: "world \<Rightarrow> TaskPromise \<Rightarrow> safe_point_awaitable \<times> TaskPromise" where
  "do_safe_point w p =
     (if isCancellationRequested w (cancelToken p)
      then (FinalAwaiterAlternative, yield_value_co_error OperationCancelled p)
      else (ReadyAlternative, p))"

text \<open>The update of \<^verbatim>\<open>bypassExceptionThrowing_\<close> at the head of \<^verbatim>\<open>await_transform\<close>.\<close>

definition await_transform_bypass :: "TaskPromise \<Rightarrow> TaskPromise" where
  "await_transform_bypass p =
     p\<lparr>bypassExceptionThrowing :=
         (if bypassExceptionThrowing p = REQUESTED then ACTIVE else INACTIVE)\<rparr>"

text \<open>\<^verbatim>\<open>tag_invoke(cpo_t<co_attachScopeExit>, ...)\<close>: \<^verbatim>\<open>std::exchange(p.scopeExit_, scopeExit)\<close>.\<close>

definition co_attachScopeExit :: "handle \<Rightarrow> TaskPromise \<Rightarrow> handle option \<times> TaskPromise" where
  "co_attachScopeExit se p = (scopeExit p, p\<lparr>scopeExit := Some se\<rparr>)"

text \<open>
  Modelled from the spec: the functions of folly/tracing/AsyncStack.h are not part of
  Task.h. A frame is identified by the coroutine that owns it; \<open>activeFrame\<close> is the
  active leaf of the logical call stack. Pushing a callee links it as the active leaf
  with the caller recorded as its parent.
\<close>

definition pushAsyncStackFrameCallerCallee :: "handle \<Rightarrow> handle \<Rightarrow> AsyncStackFrame \<Rightarrow> world \<Rightarrow> AsyncStackFrame \<times> world" where
  "pushAsyncStackFrameCallerCallee caller callee f w =
     (f\<lparr>parentFrame := Some caller\<rparr>, w\<lparr>activeFrame := Some callee\<rparr>)"

text \<open>
  Modelled from the spec: \<^verbatim>\<open>folly::popAsyncStackFrameCallee\<close> unlinks the callee's frame
  and restores its parent frame as active.
\<close>

definition popAsyncStackFrameCallee :: "AsyncStackFrame \<Rightarrow> world \<Rightarrow> world" where
  "popAsyncStackFrameCallee f w = w\<lparr>activeFrame := parentFrame f\<rparr>"

text \<open>
  Modelled from the spec: \<^verbatim>\<open>folly::deactivateAsyncStackFrame\<close> marks the frame as not
  running; no frame is the active leaf until one is activated again.
\<close>

definition deactivateAsyncStackFrame :: "world \<Rightarrow> world" where
  "deactivateAsyncStackFrame w = w\<lparr>activeFrame := None\<rparr>"

text \<open>
  Modelled from the spec: \<^verbatim>\<open>FB_LOG_ONCE(ERROR)\<close> (folly/GLog.h) reports a defect in the
  log; a message that the log already holds is not written again.
\<close>

definition FB_LOG_ONCE :: "string \<Rightarrow> world \<Rightarrow> world" where
  "FB_LOG_ONCE msg w =
     (if LogError msg \<in> set (events w) then w else w\<lparr>events := events w @ [LogError msg]\<rparr>)"

definition msgInlineLikeExecutor :: string where
  "msgInlineLikeExecutor = ''InlineLikeExecutor is not safe and is not supported for coro::Task.''"

definition msgWeakRefExecutor :: string where
  "msgWeakRefExecutor = ''You are scheduling a coro::Task on a weak executor.''"

text \<open>
  Modelled from the spec: the executor is an external collaborator that accepts a unit
  of work for later execution. \<open>Executor_add\<close> appends the unit to the pending work.
\<close>

definition Executor_add :: "work_item \<Rightarrow> world \<Rightarrow> world" where
  "Executor_add item w = w\<lparr>executorQueue := executorQueue w @ [item]\<rparr>"

text \<open>\<^verbatim>\<open>dynamic_cast<C*>(promise.executor_.get())\<close>: null for an empty handle.\<close>

definition dynamic_cast :: "(Executor \<Rightarrow> bool) \<Rightarrow> KeepAlive \<Rightarrow> bool" where
  "dynamic_cast c e = (case e of None \<Rightarrow> False | Some x \<Rightarrow> c x)"

section \<open>FinalAwaiter and getErrorHandle\<close>

text \<open>
  \<^verbatim>\<open>FinalAwaiter::await_suspend\<close> calls the continuation's \<^verbatim>\<open>getErrorHandle\<close>, and
  \<^verbatim>\<open>TaskPromiseCrtpBase::getErrorHandle\<close> calls \<^verbatim>\<open>FinalAwaiter::await_suspend\<close> of
  its own coroutine when exception throwing is bypassed. The two are one recursive
  function over the call; it has no value where the chain of continuations never ends.
  A continuation that is not a Task coroutine has no extended promise: its error handle
  is its plain handle.
\<close>

datatype final_call = AwaitSuspend handle | GetErrorHandle "handle option" exception_wrapper

partial_function (option) final_dispatch :: "final_call \<Rightarrow> world \<Rightarrow> (fault + handle option \<times> world) option" where
  "final_dispatch c w =
     (case c of
        AwaitSuspend coro \<Rightarrow>
          (case heap w coro of
             Some (TaskCoro p sp) \<Rightarrow>
               (case scopeExit p of
                  Some se \<Rightarrow>
                    (case heap w se of
                       Some (ScopeExitCoro sep) \<Rightarrow>
                         Some (Inr (Some se,
                           w\<lparr>heap := (heap w)(se \<mapsto> ScopeExitCoro
                             (setContext (continuation p) coro (executor p)
                                (case result p of TryException ex \<Rightarrow> Some ex | _ \<Rightarrow> None) sep))\<rparr>))
                     | _ \<Rightarrow> Some (Inl InvalidHandle))
                | None \<Rightarrow>
                    (case result p of
                       TryException ex \<Rightarrow>
                         final_dispatch (GetErrorHandle (continuation p) ex)
                           (popAsyncStackFrameCallee (asyncFrame p) w)
                     | _ \<Rightarrow> Some (Inr (continuation p, popAsyncStackFrameCallee (asyncFrame p) w))))
           | _ \<Rightarrow> Some (Inl InvalidHandle))
      | GetErrorHandle k ex \<Rightarrow>
          (case k of
             None \<Rightarrow> Some (Inr (None, w))
           | Some ch \<Rightarrow>
               (case heap w ch of
                  Some (TaskCoro q sq) \<Rightarrow>
                    (if bypassExceptionThrowing q = ACTIVE
                     then final_dispatch (AwaitSuspend ch)
                            (set_promise ch (yield_value_co_error ex q) sq w)
                     else Some (Inr (Some ch, w)))
                | Some other \<Rightarrow> Some (Inr (Some ch, w))
                | None \<Rightarrow> Some (Inl InvalidHandle))))"

definition FinalAwaiter_await_suspend :: "handle \<Rightarrow> world \<Rightarrow> (fault + handle option \<times> world) option" where
  "FinalAwaiter_await_suspend coro w = final_dispatch (AwaitSuspend coro) w"

definition getErrorHandle :: "handle option \<Rightarrow> exception_wrapper \<Rightarrow> world \<Rightarrow> (fault + handle option \<times> world) option" where
  "getErrorHandle k ex w = final_dispatch (GetErrorHandle k ex) w"

section \<open>Task and TaskWithExecutor\<close>

text \<open>A move constructor returns the new object and the source as it is left.\<close>

definition Task_move :: "Task \<Rightarrow> Task \<times> Task" where
  "Task_move t = (Task (Task_coro t), Task None)"

definition Task_dtor :: "Task \<Rightarrow> world \<Rightarrow> world" where
  "Task_dtor t w = (case Task_coro t of Some h \<Rightarrow> destroy h w | None \<Rightarrow> w)"

definition Task_swap :: "Task \<Rightarrow> Task \<Rightarrow> Task \<times> Task" where
  "Task_swap this t = (t, this)"

text \<open>\<^verbatim>\<open>operator=(Task t)\<close>: swap with the parameter, which is then destroyed.\<close>

definition Task_assign :: "Task \<Rightarrow> Task \<Rightarrow> world \<Rightarrow> Task \<times> world" where
  "Task_assign this t w = (case Task_swap this t of (this', t') \<Rightarrow> (this', Task_dtor t' w))"

definition TaskWithExecutor_move :: "TaskWithExecutor \<Rightarrow> TaskWithExecutor \<times> TaskWithExecutor" where
  "TaskWithExecutor_move t = (TaskWithExecutor (TaskWithExecutor_coro t), TaskWithExecutor None)"

definition TaskWithExecutor_dtor :: "TaskWithExecutor \<Rightarrow> world \<Rightarrow> world" where
  "TaskWithExecutor_dtor t w = (case TaskWithExecutor_coro t of Some h \<Rightarrow> destroy h w | None \<Rightarrow> w)"

definition TaskWithExecutor_swap :: "TaskWithExecutor \<Rightarrow> TaskWithExecutor \<Rightarrow> TaskWithExecutor \<times> TaskWithExecutor" where
  "TaskWithExecutor_swap this t = (t, this)"

definition TaskWithExecutor_assign :: "TaskWithExecutor \<Rightarrow> TaskWithExecutor \<Rightarrow> world \<Rightarrow> TaskWithExecutor \<times> world" where
  "TaskWithExecutor_assign this t w =
     (case TaskWithExecutor_swap this t of (this', t') \<Rightarrow> (this', TaskWithExecutor_dtor t' w))"

definition setExecutor :: "KeepAlive \<Rightarrow> Task \<Rightarrow> world \<Rightarrow> fault + world" where
  "setExecutor e t w =
     (if dcheck_fails w (Task_coro t \<noteq> None) then Inl DCheckFailure
      else if dcheck_fails w (e \<noteq> None) then Inl DCheckFailure
      else bind_fault (promise_of w (Task_coro t))
             (\<lambda>(h, p, sp). Inr (set_promise h (p\<lparr>executor := e\<rparr>) sp w)))"

text \<open>
  \<^verbatim>\<open>Task::scheduleOn\<close> (and \<^verbatim>\<open>co_withExecutor\<close>, which forwards to it): the bound
  handle, the Task as it is left, and the store.
\<close>

definition scheduleOn :: "KeepAlive \<Rightarrow> Task \<Rightarrow> world \<Rightarrow> fault + (TaskWithExecutor \<times> Task \<times> world)" where
  "scheduleOn e t w =
     bind_fault (setExecutor e t w)
       (\<lambda>w'. if dcheck_fails w' (Task_coro t \<noteq> None) then Inl DCheckFailure
             else Inr (TaskWithExecutor (Task_coro t), Task None, w'))"

definition co_withExecutor :: "KeepAlive \<Rightarrow> Task \<Rightarrow> world \<Rightarrow> fault + (TaskWithExecutor \<times> Task \<times> world)" where
  "co_withExecutor e t w = scheduleOn e t w"

text \<open>
  \<^verbatim>\<open>TaskWithExecutor::unwrap\<close>: the executor is moved out of the promise, the handle
  moves into a Task; the bound handle as it is left, and the store.
\<close>

definition unwrap :: "TaskWithExecutor \<Rightarrow> world \<Rightarrow> fault + ((Task \<times> KeepAlive) \<times> TaskWithExecutor \<times> world)" where
  "unwrap this w =
     bind_fault (promise_of w (TaskWithExecutor_coro this))
       (\<lambda>(h, p, sp).
          Inr ((Task (Some h), executor p), TaskWithExecutor None,
               set_promise h (p\<lparr>executor := None\<rparr>) sp w))"

definition co_withCancellation_Task :: "CancellationToken \<Rightarrow> Task \<Rightarrow> world \<Rightarrow> fault + (Task \<times> Task \<times> world)" where
  "co_withCancellation_Task t task w =
     (if dcheck_fails w (Task_coro task \<noteq> None) then Inl DCheckFailure
      else bind_fault (promise_of w (Task_coro task))
             (\<lambda>(h, p, sp).
                case Task_move task of
                  (r, task') \<Rightarrow> Inr (r, task', set_promise h (setCancelToken t p) sp w)))"

definition co_withCancellation_TaskWithExecutor ::
  "CancellationToken \<Rightarrow> TaskWithExecutor \<Rightarrow> world \<Rightarrow> fault + (TaskWithExecutor \<times> TaskWithExecutor \<times> world)" where
  "co_withCancellation_TaskWithExecutor t task w =
     (if dcheck_fails w (TaskWithExecutor_coro task \<noteq> None) then Inl DCheckFailure
      else bind_fault (promise_of w (TaskWithExecutor_coro task))
             (\<lambda>(h, p, sp).
                case TaskWithExecutor_move task of
                  (r, task') \<Rightarrow> Inr (r, task', set_promise h (setCancelToken t p) sp w)))"

text \<open>
  \<^verbatim>\<open>co_viaIfAsync(Executor::KeepAlive<>, Task<T>&&)\<close>: the child inherits the executor;
  the result is the \<^verbatim>\<open>Task::Awaiter\<close> (its \<^verbatim>\<open>coro_\<close>), the Task is left empty.
\<close>

definition co_viaIfAsync_Task :: "KeepAlive \<Rightarrow> Task \<Rightarrow> world \<Rightarrow> fault + (handle option \<times> Task \<times> world)" where
  "co_viaIfAsync_Task e t w =
     (if dcheck_fails w (Task_coro t \<noteq> None) then Inl DCheckFailure
      else bind_fault (setExecutor e t w) (\<lambda>w'. Inr (Task_coro t, Task None, w')))"

section \<open>Awaiters\<close>

text \<open>
  \<^verbatim>\<open>Task::Awaiter::await_suspend\<close>, instantiated for an awaiting coroutine whose promise
  has an async frame (every Task coroutine): the handle it returns is resumed next.
\<close>

definition Task_Awaiter_await_suspend :: "handle option \<Rightarrow> handle \<Rightarrow> world \<Rightarrow> fault + (handle \<times> world)" where
  "Task_Awaiter_await_suspend coro k w =
     (if dcheck_fails w (coro \<noteq> None) then Inl DCheckFailure
      else bind_fault (promise_of w coro)
             (\<lambda>(h, p, sp).
                case pushAsyncStackFrameCallerCallee k h ((asyncFrame p)\<lparr>returnAddressSet := True\<rparr>) w of
                  (f, w') \<Rightarrow> Inr (h, set_promise h (p\<lparr>continuation := Some k, asyncFrame := f\<rparr>) sp w')))"

definition Task_Awaiter_await_resume_try :: "handle option \<Rightarrow> world \<Rightarrow> fault + (Try \<times> handle option \<times> world)" where
  "Task_Awaiter_await_resume_try coro w =
     (if dcheck_fails w (coro \<noteq> None) then Inl DCheckFailure
      else bind_fault (promise_of w coro) (\<lambda>(h, p, sp). Inr (result p, None, destroy h w)))"

text \<open>
  \<^verbatim>\<open>TaskWithExecutor::Awaiter::await_suspend\<close>. The flag is
  \<^verbatim>\<open>detail::promiseHasAsyncFrame_v<Promise>\<close> of the awaiting coroutine.
\<close>

definition TaskWithExecutor_Awaiter_await_suspend :: "handle option \<Rightarrow> handle \<Rightarrow> bool \<Rightarrow> world \<Rightarrow> fault + world" where
  "TaskWithExecutor_Awaiter_await_suspend coro k promiseHasAsyncFrame w =
     (if dcheck_fails w (coro \<noteq> None) then Inl DCheckFailure
      else bind_fault (promise_of w coro)
        (\<lambda>(h, p, sp).
           if dcheck_fails w (continuation p = None) then Inl DCheckFailure
           else if dcheck_fails w (executor p \<noteq> None) then Inl DCheckFailure
           else if dcheck_fails w (\<not> dynamic_cast isInlineExecutor (executor p)) then Inl DCheckFailure
           else if dcheck_fails w (\<not> dynamic_cast isQueuedImmediateExecutor (executor p)) then Inl DCheckFailure
           else
             let w1 = (if kIsDebug (build w)
                       then (let wa = (if dynamic_cast isInlineLikeExecutor (executor p)
                                       then FB_LOG_ONCE msgInlineLikeExecutor w else w)
                             in if dynamic_cast isWeakRefExecutor (executor p)
                                then FB_LOG_ONCE msgWeakRefExecutor wa else wa)
                       else w);
                 f1 = (asyncFrame p)\<lparr>returnAddressSet := True\<rparr>;
                 f2 = (if promiseHasAsyncFrame then f1\<lparr>parentFrame := Some k\<rparr> else f1);
                 w2 = (if promiseHasAsyncFrame then deactivateAsyncStackFrame w1 else w1);
                 w3 = set_promise h (p\<lparr>asyncFrame := f2, continuation := Some k\<rparr>) sp w2
             in case executor p of
                  None \<Rightarrow> Inl InvalidHandle
                | Some e \<Rightarrow>
                    Inr (Executor_add
                           \<lparr>workExecutor = executorId e, workCoro = h, workCtx = requestContext w3\<rparr> w3)))"

definition TaskWithExecutor_Awaiter_await_resume_try :: "handle option \<Rightarrow> world \<Rightarrow> fault + (Try \<times> handle option \<times> world)" where
  "TaskWithExecutor_Awaiter_await_resume_try coro w =
     bind_fault (promise_of w coro) (\<lambda>(h, p, sp). Inr (result p, None, destroy h w))"

definition InlineTryAwaitable_await_suspend :: "handle option \<Rightarrow> handle \<Rightarrow> world \<Rightarrow> fault + (handle \<times> world)" where
  "InlineTryAwaitable_await_suspend coro k w =
     (if dcheck_fails w (coro \<noteq> None) then Inl DCheckFailure
      else bind_fault (promise_of w coro)
        (\<lambda>(h, p, sp).
           if dcheck_fails w (continuation p = None) then Inl DCheckFailure
           else if dcheck_fails w (executor p \<noteq> None) then Inl DCheckFailure
           else
             case pushAsyncStackFrameCallerCallee k h ((asyncFrame p)\<lparr>returnAddressSet := True\<rparr>) w of
               (f, w') \<Rightarrow> Inr (h, set_promise h (p\<lparr>continuation := Some k, asyncFrame := f\<rparr>) sp w')))"

definition InlineTryAwaitable_await_resume :: "handle option \<Rightarrow> world \<Rightarrow> fault + (Try \<times> handle option \<times> world)" where
  "InlineTryAwaitable_await_resume coro w =
     (if dcheck_fails w (coro \<noteq> None) then Inl DCheckFailure
      else bind_fault (promise_of w coro) (\<lambda>(h, p, sp). Inr (result p, None, destroy h w)))"

text \<open>\<^verbatim>\<open>TaskWithExecutor::operator co_await() &&\<close>: the awaiter and the handle as it is left.\<close>

definition operator_co_await :: "TaskWithExecutor \<Rightarrow> world \<Rightarrow> fault + (handle option \<times> TaskWithExecutor)" where
  "operator_co_await this w =
     (if dcheck_fails w (TaskWithExecutor_coro this \<noteq> None) then Inl DCheckFailure
      else Inr (TaskWithExecutor_coro this, TaskWithExecutor None))"

section \<open>Running a Task coroutine\<close>

text \<open>
  What the thread does after a coroutine has run up to its next suspension: resume the
  handle that \<^verbatim>\<open>await_suspend\<close> returned (symmetric transfer), or return to whoever
  resumed the coroutine.
\<close>

datatype control = ResumeNext handle | ReturnToResumer

text \<open>
  \<^verbatim>\<open>co_await final_suspend()\<close> of the Task coroutine \<open>h\<close>: the coroutine is suspended
  for the last time and \<^verbatim>\<open>FinalAwaiter::await_suspend\<close> chooses what runs next.
\<close>

definition final_suspend :: "handle \<Rightarrow> world \<Rightarrow> (fault + control \<times> world) option" where
  "final_suspend h w =
     (case promise_of w (Some h) of
        Inl f \<Rightarrow> Some (Inl f)
      | Inr (h', p, sp) \<Rightarrow>
          (case FinalAwaiter_await_suspend h (set_promise h p FinalSuspend w) of
             None \<Rightarrow> None
           | Some (Inl f) \<Rightarrow> Some (Inl f)
           | Some (Inr (None, w')) \<Rightarrow> Some (Inl InvalidHandle)
           | Some (Inr (Some n, w')) \<Rightarrow> Some (Inr (ResumeNext n, w'))))"

definition update_promise :: "handle \<Rightarrow> (TaskPromise \<Rightarrow> TaskPromise) \<Rightarrow> world \<Rightarrow> fault + world" where
  "update_promise h f w =
     bind_fault (promise_of w (Some h)) (\<lambda>(h', p, sp). Inr (set_promise h (f p) sp w))"

text \<open>
  \<^verbatim>\<open>TaskPromiseBase::await_transform\<close> applied to a child Task by the coroutine \<open>h\<close>,
  followed by \<^verbatim>\<open>Task::Awaiter::await_suspend\<close>: \<^verbatim>\<open>co_withCancellation\<close> with the
  awaiting promise's token, \<^verbatim>\<open>co_viaIfAsync\<close> with its executor
  (\<^verbatim>\<open>co_withAsyncStack\<close> returns the awaiter as it is), then the suspension of \<open>h\<close>.
  \<^verbatim>\<open>await_transform(NothrowAwaitable)\<close> first requests the bypass of exception throwing.
\<close>

definition await_Task :: "bool \<Rightarrow> Task \<Rightarrow> (Try \<Rightarrow> body) \<Rightarrow> handle \<Rightarrow> world \<Rightarrow> fault + control \<times> world" where
  "await_Task nothrow t k h w =
     bind_fault (promise_of w (Some h))
       (\<lambda>(h', p, sp).
          let p2 = await_transform_bypass
                     (if nothrow then p\<lparr>bypassExceptionThrowing := REQUESTED\<rparr> else p)
          in bind_fault (co_withCancellation_Task (cancelToken p2) t (set_promise h p2 sp w))
               (\<lambda>(t1, t', w2).
                  bind_fault (co_viaIfAsync_Task (executor p2) t1 w2)
                    (\<lambda>(awaiter, t1', w3).
                       bind_fault (promise_of w3 (Some h))
                         (\<lambda>(h'', q, sq).
                            bind_fault (Task_Awaiter_await_suspend awaiter h
                                          (set_promise h q (AwaitingTask awaiter k) w3))
                              (\<lambda>(next, w4). Inr (ResumeNext next, w4))))))"

fun run_body :: "body \<Rightarrow> handle \<Rightarrow> world \<Rightarrow> (fault + control \<times> world) option" where
  "run_body (CoReturn v) h w =
     (case update_promise h (return_value v) w of
        Inl f \<Rightarrow> Some (Inl f)
      | Inr w' \<Rightarrow> final_suspend h w')"
| "run_body (Throw ex) h w =
     (case update_promise h (unhandled_exception ex) w of
        Inl f \<Rightarrow> Some (Inl f)
      | Inr w' \<Rightarrow> final_suspend h w')"
| "run_body (CoYieldError ex) h w =
     (case update_promise h (yield_value_co_error ex) w of
        Inl f \<Rightarrow> Some (Inl f)
      | Inr w' \<Rightarrow> final_suspend h w')"
| "run_body (CoYieldResult t) h w =
     (case update_promise h (yield_value_co_result t) w of
        Inl f \<Rightarrow> Some (Inl f)
      | Inr w' \<Rightarrow> final_suspend h w')"
| "run_body (CoSafePoint b) h w =
     (case promise_of w (Some h) of
        Inl f \<Rightarrow> Some (Inl f)
      | Inr (h', p, sp) \<Rightarrow>
          (case do_safe_point w p of
             (FinalAwaiterAlternative, p') \<Rightarrow> final_suspend h (set_promise h p' sp w)
           | (ReadyAlternative, p') \<Rightarrow> run_body b h w))"
| "run_body (CoAttachScopeExit se b) h w =
     (case update_promise h (\<lambda>p. snd (co_attachScopeExit se p)) w of
        Inl f \<Rightarrow> Some (Inl f)
      | Inr w' \<Rightarrow> run_body b h w')"
| "run_body (SetRequestContext c b) h w = run_body b h (w\<lparr>requestContext := c\<rparr>)"
| "run_body (CoSuspend b) h w =
     (case promise_of w (Some h) of
        Inl f \<Rightarrow> Some (Inl f)
      | Inr (h', p, sp) \<Rightarrow>
          Some (Inr (ReturnToResumer, set_promise h (await_transform_bypass p) (SuspendedAt b) w)))"
| "run_body (CoAwaitTask nothrow t k) h w = Some (await_Task nothrow t k h w)"

text \<open>
  The detached coroutine of \<^verbatim>\<open>startImpl\<close>/\<^verbatim>\<open>startInlineImpl\<close> after its
  \<^verbatim>\<open>co_await\<close>: the awaiter's resume gives the result and destroys the task's frame,
  the callback is called with it; if that throws, the handler calls the callback with
  the exception. The coroutine type, \<^verbatim>\<open>detail::InlineTaskDetached\<close>, is declared in
  folly/coro/detail/InlineTask.h, outside Task.h: an exception that leaves the handler
  ends the process (\<open>Terminate\<close>), and the finished coroutine releases its own frame.
\<close>

definition invoke_callback :: "callback \<Rightarrow> Try \<Rightarrow> world \<Rightarrow> exception_wrapper option \<times> world" where
  "invoke_callback cb r w =
     (cb (callback_invocations w) r, w\<lparr>events := events w @ [CallbackInvoked r]\<rparr>)"

definition detached_resume :: "detached_kind \<Rightarrow> handle option \<Rightarrow> callback \<Rightarrow> handle \<Rightarrow> world \<Rightarrow> fault + control \<times> world" where
  "detached_resume kind awaiter cb d w =
     bind_fault
       (case kind of
          OfStartImpl \<Rightarrow> TaskWithExecutor_Awaiter_await_resume_try awaiter w
        | OfStartInlineImpl \<Rightarrow> InlineTryAwaitable_await_resume awaiter w)
       (\<lambda>(r, awaiter', w1).
          case invoke_callback cb r w1 of
            (None, w2) \<Rightarrow> Inr (ReturnToResumer, destroy d w2)
          | (Some ex, w2) \<Rightarrow>
              (case invoke_callback cb (TryException ex) w2 of
                 (None, w3) \<Rightarrow> Inr (ReturnToResumer, destroy d w3)
               | (Some ex', w3) \<Rightarrow> Inl Terminate))"

text \<open>\<^verbatim>\<open>coroutine_handle::resume\<close> for the coroutines that Task.h defines.\<close>

definition resume :: "handle \<Rightarrow> world \<Rightarrow> (fault + control \<times> world) option" where
  "resume h w =
     (case heap w h of
        Some (TaskCoro p sp) \<Rightarrow>
          (case sp of
             InitialSuspend b \<Rightarrow> run_body b h w
           | SuspendedAt b \<Rightarrow> run_body b h w
           | AwaitingTask awaiter k \<Rightarrow>
               (case Task_Awaiter_await_resume_try awaiter w of
                  Inl f \<Rightarrow> Some (Inl f)
                | Inr (r, awaiter', w') \<Rightarrow> run_body (k r) h w')
           | FinalSuspend \<Rightarrow> Some (Inl InvalidHandle))
      | Some (DetachedCoro kind awaiter cb) \<Rightarrow> Some (detached_resume kind awaiter cb h w)
      | _ \<Rightarrow> Some (Inl InvalidHandle))"

text \<open>
  Symmetric transfer: resume a coroutine, then whatever it hands control to, until
  control returns to the resumer (\<open>None\<close>) or reaches a coroutine that Task.h does not
  define, a scope-exit task or a foreign continuation (\<open>Some\<close> of its handle).
\<close>

partial_function (option) symmetric_transfer :: "handle \<Rightarrow> world \<Rightarrow> (fault + handle option \<times> world) option" where
  "symmetric_transfer h w =
     (case heap w h of
        Some (ScopeExitCoro sep) \<Rightarrow> Some (Inr (Some h, w))
      | Some OtherCoro \<Rightarrow> Some (Inr (Some h, w))
      | _ \<Rightarrow>
          (case resume h w of
             None \<Rightarrow> None
           | Some (Inl f) \<Rightarrow> Some (Inl f)
           | Some (Inr (ReturnToResumer, w')) \<Rightarrow> Some (Inr (None, w'))
           | Some (Inr (ResumeNext n, w')) \<Rightarrow> symmetric_transfer n w'))"




section \<open>Starting a TaskWithExecutor\<close>

text \<open>
  The coroutine \<^verbatim>\<open>startImpl(TaskWithExecutor task, F cb)\<close>, started by
  \<^verbatim>\<open>InlineTaskDetached::start\<close> under a stack root of its own: its frame is \<open>d\<close>, a
  fresh handle; it runs up to its \<^verbatim>\<open>co_await\<close>, where
  \<^verbatim>\<open>TaskWithExecutor::Awaiter::await_suspend\<close> gives the task to the executor, and
  control returns to the caller.
\<close>

definition startImpl_coroutine :: "handle \<Rightarrow> TaskWithExecutor \<Rightarrow> callback \<Rightarrow> world \<Rightarrow> fault + world" where
  "startImpl_coroutine d task cb w =
     bind_fault (operator_co_await task w)
       (\<lambda>(awaiter, task').
          bind_fault
            (TaskWithExecutor_Awaiter_await_suspend awaiter d True
               (w\<lparr>heap := (heap w)(d \<mapsto> DetachedCoro OfStartImpl awaiter cb), activeFrame := Some d\<rparr>))
            (\<lambda>w'. Inr (w'\<lparr>activeFrame := activeFrame w\<rparr>)))"

text \<open>
  \<^verbatim>\<open>TaskWithExecutor::startImpl(F&&, CancellationToken, void*) &&\<close>: the handle as it is
  left, and the store.
\<close>

definition startImpl :: "handle \<Rightarrow> callback \<Rightarrow> CancellationToken \<Rightarrow> TaskWithExecutor \<Rightarrow> world \<Rightarrow> fault + (TaskWithExecutor \<times> world)" where
  "startImpl d tryCallback t this w =
     bind_fault (promise_of w (TaskWithExecutor_coro this))
       (\<lambda>(h, p, sp).
          case TaskWithExecutor_move this of
            (task, this') \<Rightarrow>
              bind_fault (startImpl_coroutine d task tryCallback (set_promise h (setCancelToken t p) sp w))
                (\<lambda>w'. Inr (this', w')))"

text \<open>\<^verbatim>\<open>start(F&& tryCallback, CancellationToken cancelToken = {}) &&\<close>.\<close>

definition start :: "handle \<Rightarrow> callback \<Rightarrow> CancellationToken \<Rightarrow> TaskWithExecutor \<Rightarrow> world \<Rightarrow> fault + (TaskWithExecutor \<times> world)" where
  "start d tryCallback t this w = startImpl d tryCallback t this w"

text \<open>
  \<^verbatim>\<open>start() &&\<close>: the callback fulfils the promise of the returned SemiFuture and does
  not throw; the token is \<^verbatim>\<open>folly::CancellationToken{}\<close>.
\<close>

definition start_SemiFuture :: "handle \<Rightarrow> TaskWithExecutor \<Rightarrow> world \<Rightarrow> fault + (TaskWithExecutor \<times> world)" where
  "start_SemiFuture d this w = startImpl d (\<lambda>earlier r. None) None this w"

text \<open>
  The coroutine \<^verbatim>\<open>startInlineImpl(TaskWithExecutor task, F cb)\<close>: its
  \<^verbatim>\<open>co_await InlineTryAwaitable{std::exchange(task.coro_, {})}\<close> transfers control to
  the task on the calling thread.
\<close>

definition startInlineImpl_coroutine :: "handle \<Rightarrow> TaskWithExecutor \<Rightarrow> callback \<Rightarrow> world \<Rightarrow> (fault + world) option" where
  "startInlineImpl_coroutine d task cb w =
     (case InlineTryAwaitable_await_suspend (TaskWithExecutor_coro task) d
             (w\<lparr>heap := (heap w)(d \<mapsto> DetachedCoro OfStartInlineImpl (TaskWithExecutor_coro task) cb),
                activeFrame := Some d\<rparr>) of
        Inl f \<Rightarrow> Some (Inl f)
      | Inr (next, w1) \<Rightarrow>
          (case symmetric_transfer next w1 of
             None \<Rightarrow> None
           | Some (Inl f) \<Rightarrow> Some (Inl f)
           | Some (Inr (stop, w2)) \<Rightarrow> Some (Inr (w2\<lparr>activeFrame := activeFrame w\<rparr>))))"

text \<open>
  \<^verbatim>\<open>TaskWithExecutor::startInlineImpl(F&&, CancellationToken, void*) &&\<close>. The
  \<^verbatim>\<open>RequestContextScopeGuard\<close> is constructed from the saved current context, so it
  installs the context that is already current; its destructor reinstates that context
  when the function returns.
\<close>

definition startInlineImpl :: "handle \<Rightarrow> callback \<Rightarrow> CancellationToken \<Rightarrow> TaskWithExecutor \<Rightarrow> world \<Rightarrow> (fault + (TaskWithExecutor \<times> world)) option" where
  "startInlineImpl d tryCallback t this w =
     (case promise_of w (TaskWithExecutor_coro this) of
        Inl f \<Rightarrow> Some (Inl f)
      | Inr (h, p, sp) \<Rightarrow>
          (let w1 = set_promise h (setCancelToken t p) sp w;
               saved = requestContext w1;
               w2 = w1\<lparr>requestContext := saved\<rparr>
           in case TaskWithExecutor_move this of
                (task, this') \<Rightarrow>
                  (case startInlineImpl_coroutine d task tryCallback w2 of
                     None \<Rightarrow> None
                   | Some (Inl f) \<Rightarrow> Some (Inl f)
                   | Some (Inr w3) \<Rightarrow> Some (Inr (this', w3\<lparr>requestContext := saved\<rparr>)))))"

definition startInlineUnsafe :: "handle \<Rightarrow> callback \<Rightarrow> CancellationToken \<Rightarrow> TaskWithExecutor \<Rightarrow> world \<Rightarrow> (fault + (TaskWithExecutor \<times> world)) option" where
  "startInlineUnsafe d tryCallback t this w = startInlineImpl d tryCallback t this w"

section \<open>Bodies that run to their end\<close>





section \<open>Concrete configurations\<close>

definition normalExecutor :: "nat \<Rightarrow> Executor" where
  "normalExecutor n =
     \<lparr>executorId = n, isInlineExecutor = False, isQueuedImmediateExecutor = False,
      isInlineLikeExecutor = False, isWeakRefExecutor = False\<rparr>"

text \<open>A default-constructed promise, as \<^verbatim>\<open>TaskPromiseBase() noexcept = default\<close> leaves it.\<close>

definition newPromise :: TaskPromise where
  "newPromise =
     \<lparr>continuation = None, asyncFrame = \<lparr>parentFrame = None, returnAddressSet = False\<rparr>,
      executor = None, cancelToken = None, scopeExit = None, hasCancelTokenOverride = False,
      bypassExceptionThrowing = INACTIVE, result = TryEmpty\<rparr>"

definition debugBuild :: build_config where
  "debugBuild = \<lparr>kIsDebug = True, dcheckIsOn = True\<rparr>"

definition emptyWorld :: world where
  "emptyWorld =
     \<lparr>build = debugBuild, heap = Map.empty, cancellationRequested = {}, requestContext = 0,
      executorQueue = [], activeFrame = None, events = []\<rparr>"

text \<open>One Task coroutine, not yet started, at handle 1.\<close>

definition oneTask :: "body \<Rightarrow> world" where
  "oneTask b = emptyWorld\<lparr>heap := [1 \<mapsto> TaskCoro newPromise (InitialSuspend b)]\<rparr>"

text \<open>An executor that runs work inline; which one, by the first two flags.\<close>

definition inlineLikeExecutor :: "nat \<Rightarrow> bool \<Rightarrow> bool \<Rightarrow> Executor" where
  "inlineLikeExecutor n inl qi =
     \<lparr>executorId = n, isInlineExecutor = inl, isQueuedImmediateExecutor = qi,
      isInlineLikeExecutor = True, isWeakRefExecutor = False\<rparr>"

text \<open>One Task coroutine at handle 1, a scope-exit task at 2, a foreign coroutine at 3.\<close>

definition newScopeExit :: ScopeExitTaskPromise where
  "newScopeExit = \<lparr>seContinuation = None, seAsyncFrame = None, seExecutor = None, seException = None\<rparr>"

definition taskWorld :: "build_config \<Rightarrow> TaskPromise \<Rightarrow> suspend_point \<Rightarrow> world" where
  "taskWorld cfg p sp =
     emptyWorld\<lparr>build := cfg,
                heap := [1 \<mapsto> TaskCoro p sp, 2 \<mapsto> ScopeExitCoro newScopeExit, 3 \<mapsto> OtherCoro]\<rparr>"

definition boom :: exception_wrapper where
  "boom = UserException ''boom''"

text \<open>A build with \<^verbatim>\<open>kIsDebug\<close> in which \<^verbatim>\<open>DCHECK\<close> is compiled out.\<close>

definition debugBuildNoDcheck :: build_config where
  "debugBuildNoDcheck = \<lparr>kIsDebug = True, dcheckIsOn = False\<rparr>"

text \<open>Observers of an outcome: the promise of a Task coroutine, the store after a call.\<close>

definition promise_at :: "world \<Rightarrow> handle \<Rightarrow> TaskPromise option" where
  "promise_at w h = (case heap w h of Some (TaskCoro p sp) \<Rightarrow> Some p | _ \<Rightarrow> None)"



definition returnsNormally :: callback where
  "returnsNormally earlier r = None"

text \<open>A task bound to executor 7, not yet started, at handle 1; handle 4 is free.\<close>

definition boundTask :: "body \<Rightarrow> world" where
  "boundTask b =
     taskWorld debugBuild (newPromise\<lparr>executor := Some (normalExecutor 7)\<rparr>) (InitialSuspend b)"




text \<open>
  What a caller shares with the computations it starts, beside the request context: the
  work pending on executors, the cancellation states, the build.
\<close>

definition scheduling_state :: "world \<Rightarrow> work_item list \<times> nat set \<times> build_config" where
  "scheduling_state w = (executorQueue w, cancellationRequested w, build w)"

text \<open>Where the Task coroutine at a handle is suspended.\<close>

definition suspended_at :: "world \<Rightarrow> handle \<Rightarrow> suspend_point option" where
  "suspended_at w h = (case heap w h of Some (TaskCoro p sp) \<Rightarrow> Some sp | _ \<Rightarrow> None)"




section \<open>Properties\<close>

lemma set_promise_same: "heap w h = Some (TaskCoro p sp) \<Longrightarrow> set_promise h p sp w = w"
  by (simp add: set_promise_def map_upd_triv)

lemma fold_setCancelToken: "hasCancelTokenOverride p \<Longrightarrow> fold setCancelToken ts p = p"
  by (induction ts) (simp_all add: setCancelToken_def)

lemma oneTask_heap: "heap (oneTask b) 1 = Some (TaskCoro newPromise (InitialSuspend b))"
  by (simp add: oneTask_def)

text \<open>
  C5. The first call that sets the cancellation token of a computation stores that
  token. Every later attempt, however many, leaves the stored token as it is, and
  \<^verbatim>\<open>co_withCancellation\<close> on the bound handle returns normally with the store unchanged.
\<close>

theorem setCancelToken_first_write_wins:
  assumes "heap w h = Some (TaskCoro p sp)" and "\<not> hasCancelTokenOverride p"
  shows "cancelToken (setCancelToken t1 p) = t1
       \<and> cancelToken (fold setCancelToken ts (setCancelToken t1 p)) = t1
       \<and> (\<exists>w1. co_withCancellation_TaskWithExecutor t1 (TaskWithExecutor (Some h)) w
                 = Inr (TaskWithExecutor (Some h), TaskWithExecutor None, w1)
              \<and> heap w1 h = Some (TaskCoro (setCancelToken t1 p) sp)
              \<and> co_withCancellation_TaskWithExecutor t2 (TaskWithExecutor (Some h)) w1
                 = Inr (TaskWithExecutor (Some h), TaskWithExecutor None, w1))"
proof -
  have a: "hasCancelTokenOverride (setCancelToken t1 p)" "cancelToken (setCancelToken t1 p) = t1"
    using assms(2) by (simp_all add: setCancelToken_def)
  let ?w1 = "set_promise h (setCancelToken t1 p) sp w"
  have h1: "heap ?w1 h = Some (TaskCoro (setCancelToken t1 p) sp)"
    by (simp add: set_promise_def)
  have first: "co_withCancellation_TaskWithExecutor t1 (TaskWithExecutor (Some h)) w
      = Inr (TaskWithExecutor (Some h), TaskWithExecutor None, ?w1)"
    using assms(1)
    by (simp add: co_withCancellation_TaskWithExecutor_def dcheck_fails_def promise_of_def
        bind_fault_def TaskWithExecutor_move_def)
  have noop: "setCancelToken t2 (setCancelToken t1 p) = setCancelToken t1 p"
    using a(1) by (simp add: setCancelToken_def)
  have second: "co_withCancellation_TaskWithExecutor t2 (TaskWithExecutor (Some h)) ?w1
      = Inr (TaskWithExecutor (Some h), TaskWithExecutor None, ?w1)"
    using h1 noop set_promise_same [OF h1]
    by (simp add: co_withCancellation_TaskWithExecutor_def dcheck_fails_def promise_of_def
        bind_fault_def TaskWithExecutor_move_def)
  show ?thesis using a fold_setCancelToken [OF a(1)] first h1 second by auto
qed

theorem setCancelToken_first_write_wins_witness:
  "cancelToken (setCancelToken (Some 5) newPromise) = Some 5
   \<and> cancelToken (fold setCancelToken [Some 6, None] (setCancelToken (Some 5) newPromise)) = Some 5
   \<and> (\<exists>w1. co_withCancellation_TaskWithExecutor (Some 5) (TaskWithExecutor (Some 1)) (oneTask (CoReturn 42))
             = Inr (TaskWithExecutor (Some 1), TaskWithExecutor None, w1)
          \<and> heap w1 1 = Some (TaskCoro (setCancelToken (Some 5) newPromise) (InitialSuspend (CoReturn 42)))
          \<and> co_withCancellation_TaskWithExecutor (Some 9) (TaskWithExecutor (Some 1)) w1
             = Inr (TaskWithExecutor (Some 1), TaskWithExecutor None, w1))"
proof -
  have b: "\<not> hasCancelTokenOverride newPromise" by (simp add: newPromise_def)
  show ?thesis by (rule setCancelToken_first_write_wins [OF oneTask_heap b])
qed

text \<open>
  C6. Task and TaskWithExecutor are single-owner handles: a move transfers the
  coroutine handle and leaves the source empty; destroying an empty handle (moved-from
  or consumed) changes nothing; destroying a handle that still owns its coroutine
  releases that coroutine's frame and does nothing else: no callback is called, no work
  is given to an executor, no other frame changes.
\<close>

theorem handles_move_only_single_owner:
  "Task_move t = (Task (Task_coro t), Task None)
   \<and> TaskWithExecutor_move u = (TaskWithExecutor (TaskWithExecutor_coro u), TaskWithExecutor None)
   \<and> Task_dtor (snd (Task_move t)) w = w
   \<and> TaskWithExecutor_dtor (snd (TaskWithExecutor_move u)) w = w
   \<and> Task_dtor (Task None) w = w
   \<and> TaskWithExecutor_dtor (TaskWithExecutor None) w = w
   \<and> Task_dtor (Task (Some h)) w = w\<lparr>heap := (heap w)(h := None)\<rparr>
   \<and> TaskWithExecutor_dtor (TaskWithExecutor (Some h)) w = w\<lparr>heap := (heap w)(h := None)\<rparr>
   \<and> events (Task_dtor t w) = events w
   \<and> events (TaskWithExecutor_dtor u w) = events w
   \<and> executorQueue (Task_dtor t w) = executorQueue w
   \<and> executorQueue (TaskWithExecutor_dtor u w) = executorQueue w
   \<and> heap (Task_dtor t w) = (case Task_coro t of None \<Rightarrow> heap w | Some c \<Rightarrow> (heap w)(c := None))
   \<and> heap (TaskWithExecutor_dtor u w) =
       (case TaskWithExecutor_coro u of None \<Rightarrow> heap w | Some c \<Rightarrow> (heap w)(c := None))"
  by (simp add: Task_move_def TaskWithExecutor_move_def Task_dtor_def TaskWithExecutor_dtor_def
      destroy_def split: option.split)

text \<open>
  C9. Binding a task to an executor and then unwrapping the bound handle, before the
  computation has started, gives back the same coroutine as an unbound Task together
  with that executor, and leaves the bound handle empty. The promise is as before the
  binding, with no executor: for a task that had none, the store is exactly as before.
\<close>

theorem unwrap_scheduleOn_roundtrip:
  assumes "heap w h = Some (TaskCoro p sp)" and "dcheckIsOn (build w) \<longrightarrow> e \<noteq> None"
  shows "scheduleOn e (Task (Some h)) w
           = Inr (TaskWithExecutor (Some h), Task None, set_promise h (p\<lparr>executor := e\<rparr>) sp w)
       \<and> unwrap (TaskWithExecutor (Some h)) (set_promise h (p\<lparr>executor := e\<rparr>) sp w)
           = Inr ((Task (Some h), e), TaskWithExecutor None,
                  set_promise h (p\<lparr>executor := None\<rparr>) sp w)
       \<and> (executor p = None \<longrightarrow> set_promise h (p\<lparr>executor := None\<rparr>) sp w = w)"
proof -
  let ?w1 = "set_promise h (p\<lparr>executor := e\<rparr>) sp w"
  have s: "scheduleOn e (Task (Some h)) w = Inr (TaskWithExecutor (Some h), Task None, ?w1)"
    using assms
    by (auto simp add: scheduleOn_def setExecutor_def dcheck_fails_def promise_of_def bind_fault_def
        set_promise_def)
  have u: "unwrap (TaskWithExecutor (Some h)) ?w1
      = Inr ((Task (Some h), e), TaskWithExecutor None, set_promise h (p\<lparr>executor := None\<rparr>) sp w)"
    by (simp add: unwrap_def promise_of_def bind_fault_def set_promise_def)
  have same: "executor p = None \<longrightarrow> set_promise h (p\<lparr>executor := None\<rparr>) sp w = w"
    using set_promise_same [OF assms(1)] by (cases p) auto
  show ?thesis using s u same by simp
qed

theorem unwrap_scheduleOn_roundtrip_witness:
  "scheduleOn (Some (normalExecutor 7)) (Task (Some 1)) (oneTask (CoReturn 42))
     = Inr (TaskWithExecutor (Some 1), Task None,
            set_promise 1 (newPromise\<lparr>executor := Some (normalExecutor 7)\<rparr>) (InitialSuspend (CoReturn 42))
              (oneTask (CoReturn 42)))
   \<and> unwrap (TaskWithExecutor (Some 1))
       (set_promise 1 (newPromise\<lparr>executor := Some (normalExecutor 7)\<rparr>) (InitialSuspend (CoReturn 42))
          (oneTask (CoReturn 42)))
     = Inr ((Task (Some 1), Some (normalExecutor 7)), TaskWithExecutor None, oneTask (CoReturn 42))"
proof -
  have b: "dcheckIsOn (build (oneTask (CoReturn 42))) \<longrightarrow> Some (normalExecutor 7) \<noteq> None"
    by simp
  have c: "executor newPromise = None" by (simp add: newPromise_def)
  show ?thesis using unwrap_scheduleOn_roundtrip [OF oneTask_heap b] c by simp
qed

lemma setCancelToken_fields [simp]:
  "asyncFrame (setCancelToken t q) = asyncFrame q"
  "executor (setCancelToken t q) = executor q"
  "continuation (setCancelToken t q) = continuation q"
  "scopeExit (setCancelToken t q) = scopeExit q"
  "result (setCancelToken t q) = result q"
  "bypassExceptionThrowing (setCancelToken t q) = bypassExceptionThrowing q"
  "hasCancelTokenOverride (setCancelToken t q)"
  "cancelToken (setCancelToken t q) = (if hasCancelTokenOverride q then cancelToken q else t)"
  by (simp_all add: setCancelToken_def)

lemma isCancellationRequested_frame [simp]:
  "isCancellationRequested (w\<lparr>requestContext := c\<rparr>) t = isCancellationRequested w t"
  "isCancellationRequested (w\<lparr>heap := hp\<rparr>) t = isCancellationRequested w t"
  "isCancellationRequested (w\<lparr>activeFrame := a\<rparr>) t = isCancellationRequested w t"
  "isCancellationRequested (w\<lparr>executorQueue := q\<rparr>) t = isCancellationRequested w t"
  "isCancellationRequested (w\<lparr>events := e\<rparr>) t = isCancellationRequested w t"
  by (simp_all add: isCancellationRequested_def split: option.split)

lemma taskWorld_heap:
  "heap (taskWorld cfg p sp) 1 = Some (TaskCoro p sp)"
  "heap (taskWorld cfg p sp) 2 = Some (ScopeExitCoro newScopeExit)"
  "heap (taskWorld cfg p sp) 3 = Some OtherCoro"
  by (simp_all add: taskWorld_def)

subsection \<open>The terminal dispatch\<close>

lemma FinalAwaiter_scopeExit:
  assumes "heap w h = Some (TaskCoro p sp)" and "scopeExit p = Some se"
    and "heap w se = Some (ScopeExitCoro sep)"
  shows "FinalAwaiter_await_suspend h w =
     Some (Inr (Some se, w\<lparr>heap := (heap w)(se \<mapsto> ScopeExitCoro
        (sep\<lparr>seContinuation := continuation p, seAsyncFrame := Some h, seExecutor := executor p,
              seException := (case result p of TryException ex \<Rightarrow> Some ex | _ \<Rightarrow> None)\<rparr>))\<rparr>))"
  unfolding FinalAwaiter_await_suspend_def
  by (subst final_dispatch.simps) (simp add: assms setContext_def)

lemma FinalAwaiter_value:
  assumes "heap w h = Some (TaskCoro p sp)" and "scopeExit p = None" and "\<not> hasException (result p)"
  shows "FinalAwaiter_await_suspend h w =
     Some (Inr (continuation p, w\<lparr>activeFrame := parentFrame (asyncFrame p)\<rparr>))"
  unfolding FinalAwaiter_await_suspend_def
  using assms(3)
  by (subst final_dispatch.simps)
     (cases "result p"; simp add: assms(1,2) popAsyncStackFrameCallee_def)

lemma FinalAwaiter_error:
  assumes "heap w h = Some (TaskCoro p sp)" and "scopeExit p = None" and "result p = TryException ex"
  shows "FinalAwaiter_await_suspend h w =
     getErrorHandle (continuation p) ex (w\<lparr>activeFrame := parentFrame (asyncFrame p)\<rparr>)"
  unfolding FinalAwaiter_await_suspend_def getErrorHandle_def
  by (subst final_dispatch.simps) (simp add: assms popAsyncStackFrameCallee_def)

lemma getErrorHandle_null: "getErrorHandle None ex w = Some (Inr (None, w))"
  unfolding getErrorHandle_def by (subst final_dispatch.simps) simp

lemma getErrorHandle_Task:
  assumes "heap w ch = Some (TaskCoro q sq)"
  shows "getErrorHandle (Some ch) ex w =
     (if bypassExceptionThrowing q = ACTIVE
      then FinalAwaiter_await_suspend ch (set_promise ch (q\<lparr>result := TryException ex\<rparr>) sq w)
      else Some (Inr (Some ch, w)))"
  unfolding getErrorHandle_def FinalAwaiter_await_suspend_def
  by (subst final_dispatch.simps) (simp add: assms yield_value_co_error_def)

lemma getErrorHandle_plain:
  assumes "heap w ch = Some c" and "\<forall>q sq. c \<noteq> TaskCoro q sq"
  shows "getErrorHandle (Some ch) ex w = Some (Inr (Some ch, w))"
  unfolding getErrorHandle_def
  using assms by (subst final_dispatch.simps) (cases c; simp)

text \<open>
  C2. The dispatch at the terminal point of a computation. With a scope-exit task
  attached, the saved continuation, the diagnostic frame, the bound executor and the
  error of the result (if it holds one) are handed to the scope-exit task, which is
  resumed next; the active diagnostic frame stays as it is. Without one, the
  computation's frame is popped (its parent becomes the active frame); then a result
  that holds a value resumes the plain continuation, and a result that holds an error
  resumes what the continuation's \<^verbatim>\<open>getErrorHandle\<close> returns. That is the
  continuation itself, unless it is a Task coroutine whose exception throwing is
  bypassed: such a coroutine takes the error as its own result and runs its own
  terminal dispatch.
\<close>

theorem final_awaiter_dispatch:
  assumes "heap w h = Some (TaskCoro p sp)"
  shows "(\<forall>se sep. scopeExit p = Some se \<and> heap w se = Some (ScopeExitCoro sep) \<longrightarrow>
            (\<exists>w'. FinalAwaiter_await_suspend h w = Some (Inr (Some se, w'))
               \<and> heap w' = (heap w)(se \<mapsto> ScopeExitCoro
                    (sep\<lparr>seContinuation := continuation p, seAsyncFrame := Some h,
                          seExecutor := executor p,
                          seException := (case result p of TryException ex \<Rightarrow> Some ex | _ \<Rightarrow> None)\<rparr>))
               \<and> activeFrame w' = activeFrame w))
       \<and> (scopeExit p = None \<and> \<not> hasException (result p) \<longrightarrow>
            FinalAwaiter_await_suspend h w =
              Some (Inr (continuation p, w\<lparr>activeFrame := parentFrame (asyncFrame p)\<rparr>)))
       \<and> (\<forall>ex. scopeExit p = None \<and> result p = TryException ex \<longrightarrow>
            FinalAwaiter_await_suspend h w =
              getErrorHandle (continuation p) ex (w\<lparr>activeFrame := parentFrame (asyncFrame p)\<rparr>))
       \<and> (\<forall>ex ch c v. heap v ch = Some c \<and> (\<forall>q sq. c \<noteq> TaskCoro q sq) \<longrightarrow>
            getErrorHandle (Some ch) ex v = Some (Inr (Some ch, v)))
       \<and> (\<forall>ex ch q sq v. heap v ch = Some (TaskCoro q sq) \<longrightarrow>
            getErrorHandle (Some ch) ex v =
              (if bypassExceptionThrowing q = ACTIVE
               then FinalAwaiter_await_suspend ch (set_promise ch (q\<lparr>result := TryException ex\<rparr>) sq v)
               else Some (Inr (Some ch, v))))"
proof -
  have a: "\<forall>se sep. scopeExit p = Some se \<and> heap w se = Some (ScopeExitCoro sep) \<longrightarrow>
            (\<exists>w'. FinalAwaiter_await_suspend h w = Some (Inr (Some se, w'))
               \<and> heap w' = (heap w)(se \<mapsto> ScopeExitCoro
                    (sep\<lparr>seContinuation := continuation p, seAsyncFrame := Some h,
                          seExecutor := executor p,
                          seException := (case result p of TryException ex \<Rightarrow> Some ex | _ \<Rightarrow> None)\<rparr>))
               \<and> activeFrame w' = activeFrame w)"
    using FinalAwaiter_scopeExit [OF assms] by simp
  have b: "scopeExit p = None \<and> \<not> hasException (result p) \<longrightarrow>
            FinalAwaiter_await_suspend h w =
              Some (Inr (continuation p, w\<lparr>activeFrame := parentFrame (asyncFrame p)\<rparr>))"
    using FinalAwaiter_value [OF assms] by simp
  have c: "\<forall>ex. scopeExit p = None \<and> result p = TryException ex \<longrightarrow>
            FinalAwaiter_await_suspend h w =
              getErrorHandle (continuation p) ex (w\<lparr>activeFrame := parentFrame (asyncFrame p)\<rparr>)"
    using FinalAwaiter_error [OF assms] by simp
  show ?thesis
    using a b c getErrorHandle_plain getErrorHandle_Task by simp
qed

theorem final_awaiter_dispatch_witness:
  "(\<exists>w'. FinalAwaiter_await_suspend 1
            (taskWorld debugBuild
               (newPromise\<lparr>scopeExit := Some 2, continuation := Some 3,
                           executor := Some (normalExecutor 7), result := TryException boom\<rparr>)
               FinalSuspend)
          = Some (Inr (Some 2, w'))
        \<and> heap w' 2 = Some (ScopeExitCoro
            \<lparr>seContinuation = Some 3, seAsyncFrame = Some 1, seExecutor = Some (normalExecutor 7),
             seException = Some boom\<rparr>)
        \<and> activeFrame w' = None)
   \<and> FinalAwaiter_await_suspend 1
       ((taskWorld debugBuild
          (newPromise\<lparr>continuation := Some 3, result := TryValue 42,
                      asyncFrame := \<lparr>parentFrame = Some 3, returnAddressSet = True\<rparr>\<rparr>)
          FinalSuspend)\<lparr>activeFrame := Some 1\<rparr>)
     = Some (Inr (Some 3,
         (taskWorld debugBuild
            (newPromise\<lparr>continuation := Some 3, result := TryValue 42,
                        asyncFrame := \<lparr>parentFrame = Some 3, returnAddressSet = True\<rparr>\<rparr>)
            FinalSuspend)\<lparr>activeFrame := Some 3\<rparr>))
   \<and> FinalAwaiter_await_suspend 1
       (taskWorld debugBuild (newPromise\<lparr>continuation := Some 3, result := TryException boom\<rparr>)
          FinalSuspend)
     = Some (Inr (Some 3,
         taskWorld debugBuild (newPromise\<lparr>continuation := Some 3, result := TryException boom\<rparr>)
           FinalSuspend))"
proof -
  let ?pA = "newPromise\<lparr>scopeExit := Some 2, continuation := Some 3,
                           executor := Some (normalExecutor 7), result := TryException boom\<rparr>"
  let ?pB = "newPromise\<lparr>continuation := Some 3, result := TryValue 42,
                      asyncFrame := \<lparr>parentFrame = Some 3, returnAddressSet = True\<rparr>\<rparr>"
  let ?pC = "newPromise\<lparr>continuation := Some 3, result := TryException boom\<rparr>"
  let ?wB = "(taskWorld debugBuild ?pB FinalSuspend)\<lparr>activeFrame := Some 1\<rparr>"
  have hB: "heap ?wB 1 = Some (TaskCoro ?pB FinalSuspend)" by (simp add: taskWorld_def)
  have hA: "heap (taskWorld debugBuild ?pA FinalSuspend) 1 = Some (TaskCoro ?pA FinalSuspend)"
    by (rule taskWorld_heap)
  have hC: "heap (taskWorld debugBuild ?pC FinalSuspend) 1 = Some (TaskCoro ?pC FinalSuspend)"
    by (rule taskWorld_heap)
  have A: "\<exists>w'. FinalAwaiter_await_suspend 1 (taskWorld debugBuild ?pA FinalSuspend) = Some (Inr (Some 2, w'))
        \<and> heap w' 2 = Some (ScopeExitCoro
            \<lparr>seContinuation = Some 3, seAsyncFrame = Some 1, seExecutor = Some (normalExecutor 7),
             seException = Some boom\<rparr>)
        \<and> activeFrame w' = None"
    using final_awaiter_dispatch [OF hA]
    by (auto simp add: taskWorld_def newPromise_def newScopeExit_def emptyWorld_def)
  have B: "FinalAwaiter_await_suspend 1 ?wB = Some (Inr (Some 3, ?wB\<lparr>activeFrame := Some 3\<rparr>))"
    using final_awaiter_dispatch [OF hB] by (simp add: newPromise_def)
  have C: "FinalAwaiter_await_suspend 1 (taskWorld debugBuild ?pC FinalSuspend)
      = Some (Inr (Some 3, taskWorld debugBuild ?pC FinalSuspend))"
  proof -
    let ?w = "taskWorld debugBuild ?pC FinalSuspend"
    have same: "?w\<lparr>activeFrame := parentFrame (asyncFrame ?pC)\<rparr> = ?w"
      by (simp add: taskWorld_def emptyWorld_def newPromise_def)
    have c1: "FinalAwaiter_await_suspend 1 ?w = getErrorHandle (Some 3) boom ?w"
      using final_awaiter_dispatch [OF hC] same
      by (simp add: newPromise_def)
    have c2: "getErrorHandle (Some 3) boom ?w = Some (Inr (Some 3, ?w))"
      using final_awaiter_dispatch [OF hC] taskWorld_heap(3) [of debugBuild ?pC FinalSuspend]
      by (metis coroutine.distinct(5))
    show ?thesis using c1 c2 by simp
  qed
  show ?thesis using A B C by simp
qed

subsection \<open>What the terminal dispatch leaves as it is\<close>






subsection \<open>Safe points\<close>



subsection \<open>Awaiting a bound task\<close>

text \<open>
  C7. A bound task whose executor is an inline-like executor is awaited in a debug
  build (\<^verbatim>\<open>kIsDebug\<close>). The defect is reported by the once-only error log and the
  await goes on, giving the task to the executor; it is not a crash, except in a build
  where \<^verbatim>\<open>DCHECK\<close> is active: there an InlineExecutor or a QueuedImmediateExecutor
  fails the debug check.
\<close>

theorem inline_executor_reported:
  assumes "heap w h = Some (TaskCoro p sp)" and "continuation p = None"
    and "executor p = Some e" and "isInlineLikeExecutor e" and "kIsDebug (build w)"
  shows "(dcheckIsOn (build w) \<and> (isInlineExecutor e \<or> isQueuedImmediateExecutor e) \<longrightarrow>
            TaskWithExecutor_Awaiter_await_suspend (Some h) k b w = Inl DCheckFailure)
       \<and> (\<not> (dcheckIsOn (build w) \<and> (isInlineExecutor e \<or> isQueuedImmediateExecutor e)) \<longrightarrow>
            (\<exists>w'. TaskWithExecutor_Awaiter_await_suspend (Some h) k b w = Inr w'
               \<and> LogError msgInlineLikeExecutor \<in> set (events w')
               \<and> executorQueue w' = executorQueue w @
                    [\<lparr>workExecutor = executorId e, workCoro = h, workCtx = requestContext w\<rparr>]))"
  using assms
  by (auto simp add: TaskWithExecutor_Awaiter_await_suspend_def promise_of_def bind_fault_def
      dcheck_fails_def dynamic_cast_def Let_def FB_LOG_ONCE_def set_promise_def Executor_add_def
      deactivateAsyncStackFrame_def)

theorem inline_executor_reported_witness:
  "(\<exists>w'. TaskWithExecutor_Awaiter_await_suspend (Some 1) 3 False
            (taskWorld debugBuildNoDcheck
               (newPromise\<lparr>executor := Some (inlineLikeExecutor 7 True False)\<rparr>)
               (InitialSuspend (CoReturn 42))) = Inr w'
        \<and> LogError msgInlineLikeExecutor \<in> set (events w')
        \<and> executorQueue w' = [\<lparr>workExecutor = 7, workCoro = 1, workCtx = 0\<rparr>])
   \<and> TaskWithExecutor_Awaiter_await_suspend (Some 1) 3 False
        (taskWorld debugBuild
           (newPromise\<lparr>executor := Some (inlineLikeExecutor 7 True False)\<rparr>)
           (InitialSuspend (CoReturn 42))) = Inl DCheckFailure
   \<and> (\<exists>w'. TaskWithExecutor_Awaiter_await_suspend (Some 1) 3 False
            (taskWorld debugBuild
               (newPromise\<lparr>executor := Some (inlineLikeExecutor 7 False False)\<rparr>)
               (InitialSuspend (CoReturn 42))) = Inr w'
        \<and> LogError msgInlineLikeExecutor \<in> set (events w')
        \<and> executorQueue w' = [\<lparr>workExecutor = 7, workCoro = 1, workCtx = 0\<rparr>])"
proof -
  let ?pI = "newPromise\<lparr>executor := Some (inlineLikeExecutor 7 True False)\<rparr>"
  let ?pL = "newPromise\<lparr>executor := Some (inlineLikeExecutor 7 False False)\<rparr>"
  let ?sp = "InitialSuspend (CoReturn 42)"
  have h1: "heap (taskWorld debugBuildNoDcheck ?pI ?sp) 1 = Some (TaskCoro ?pI ?sp)"
    by (rule taskWorld_heap)
  have h2: "heap (taskWorld debugBuild ?pI ?sp) 1 = Some (TaskCoro ?pI ?sp)"
    by (rule taskWorld_heap)
  have h3: "heap (taskWorld debugBuild ?pL ?sp) 1 = Some (TaskCoro ?pL ?sp)"
    by (rule taskWorld_heap)
  have c: "continuation ?pI = None" "continuation ?pL = None" by (simp_all add: newPromise_def)
  have e: "executor ?pI = Some (inlineLikeExecutor 7 True False)"
    "executor ?pL = Some (inlineLikeExecutor 7 False False)" by simp_all
  have i: "isInlineLikeExecutor (inlineLikeExecutor 7 True False)"
    "isInlineLikeExecutor (inlineLikeExecutor 7 False False)"
    by (simp_all add: inlineLikeExecutor_def)
  have d: "kIsDebug (build (taskWorld debugBuildNoDcheck ?pI ?sp))"
    "kIsDebug (build (taskWorld debugBuild ?pI ?sp))"
    "kIsDebug (build (taskWorld debugBuild ?pL ?sp))"
    by (simp_all add: taskWorld_def debugBuildNoDcheck_def debugBuild_def)
  show ?thesis
    using inline_executor_reported [OF h1 c(1) e(1) i(1) d(1), of 3 False]
      inline_executor_reported [OF h2 c(1) e(1) i(1) d(2), of 3 False]
      inline_executor_reported [OF h3 c(2) e(2) i(2) d(3), of 3 False]
    by (simp add: taskWorld_def debugBuildNoDcheck_def debugBuild_def inlineLikeExecutor_def
        emptyWorld_def)
qed

subsection \<open>Starting and running a task\<close>

lemma callback_invocations_simps [simp]:
  "callback_invocations (w\<lparr>events := events w @ [CallbackInvoked r]\<rparr>) = callback_invocations w @ [r]"
  "callback_invocations (w\<lparr>events := events w @ [LogError m]\<rparr>) = callback_invocations w"
  "callback_invocations (w\<lparr>heap := hp\<rparr>) = callback_invocations w"
  "callback_invocations (w\<lparr>activeFrame := a\<rparr>) = callback_invocations w"
  "callback_invocations (w\<lparr>requestContext := c\<rparr>) = callback_invocations w"
  "callback_invocations (w\<lparr>executorQueue := q\<rparr>) = callback_invocations w"
  by (simp_all add: callback_invocations_def List.map_filter_def)


lemma FB_LOG_ONCE_frame [simp]:
  "heap (FB_LOG_ONCE m w) = heap w"
  "executorQueue (FB_LOG_ONCE m w) = executorQueue w"
  "requestContext (FB_LOG_ONCE m w) = requestContext w"
  "cancellationRequested (FB_LOG_ONCE m w) = cancellationRequested w"
  "build (FB_LOG_ONCE m w) = build w"
  "activeFrame (FB_LOG_ONCE m w) = activeFrame w"
  "callback_invocations (FB_LOG_ONCE m w) = callback_invocations w"
  by (simp_all add: FB_LOG_ONCE_def)


lemma await_suspend_TaskWithExecutor_Inr:
  assumes "heap w h = Some (TaskCoro p sp)"
    and "TaskWithExecutor_Awaiter_await_suspend (Some h) k b w = Inr w'"
  shows "\<exists>e f. executor p = Some e
         \<and> heap w' = (heap w)(h \<mapsto> TaskCoro (p\<lparr>asyncFrame := f, continuation := Some k\<rparr>) sp)
         \<and> executorQueue w' = executorQueue w @
              [\<lparr>workExecutor = executorId e, workCoro = h, workCtx = requestContext w\<rparr>]
         \<and> requestContext w' = requestContext w
         \<and> cancellationRequested w' = cancellationRequested w
         \<and> build w' = build w
         \<and> callback_invocations w' = callback_invocations w
         \<and> activeFrame w' = (if b then None else activeFrame w)"
  using assms
  by (auto simp add: TaskWithExecutor_Awaiter_await_suspend_def promise_of_def bind_fault_def
      Let_def set_promise_def Executor_add_def deactivateAsyncStackFrame_def
      split: if_splits option.splits)

lemma await_suspend_TaskWithExecutor_succeeds:
  assumes "heap w h = Some (TaskCoro p sp)" and "continuation p = None" and "executor p = Some e"
    and "dcheckIsOn (build w) \<longrightarrow> \<not> isInlineExecutor e \<and> \<not> isQueuedImmediateExecutor e"
  shows "\<exists>w'. TaskWithExecutor_Awaiter_await_suspend (Some h) k b w = Inr w'"
  using assms
  by (auto simp add: TaskWithExecutor_Awaiter_await_suspend_def promise_of_def bind_fault_def
      Let_def dcheck_fails_def dynamic_cast_def)

lemma startImpl_Inr:
  assumes "heap w h = Some (TaskCoro p sp)"
    and "startImpl d cb t (TaskWithExecutor (Some h)) w = Inr (this', w')"
  shows "\<exists>e f. d \<noteq> h \<and> this' = TaskWithExecutor None \<and> executor p = Some e
         \<and> heap w' = (heap w)(d \<mapsto> DetachedCoro OfStartImpl (Some h) cb,
                h \<mapsto> TaskCoro ((setCancelToken t p)\<lparr>asyncFrame := f, continuation := Some d\<rparr>) sp)
         \<and> executorQueue w' = executorQueue w @
              [\<lparr>workExecutor = executorId e, workCoro = h, workCtx = requestContext w\<rparr>]
         \<and> requestContext w' = requestContext w
         \<and> cancellationRequested w' = cancellationRequested w
         \<and> build w' = build w
         \<and> callback_invocations w' = callback_invocations w
         \<and> activeFrame w' = activeFrame w"
proof -
  define w0 where "w0 = (set_promise h (setCancelToken t p) sp w)
      \<lparr>heap := (heap (set_promise h (setCancelToken t p) sp w))(d \<mapsto> DetachedCoro OfStartImpl (Some h) cb),
       activeFrame := Some d\<rparr>"
  from assms obtain w1 where
    s: "TaskWithExecutor_Awaiter_await_suspend (Some h) d True w0 = Inr w1"
    and w': "w' = w1\<lparr>activeFrame := activeFrame (set_promise h (setCancelToken t p) sp w)\<rparr>"
    and t: "this' = TaskWithExecutor None"
    by (auto simp add: startImpl_def startImpl_coroutine_def operator_co_await_def promise_of_def
        bind_fault_def TaskWithExecutor_move_def w0_def split: if_splits sum.splits)
  have dh: "d \<noteq> h"
  proof
    assume "d = h"
    then have "heap w0 h = Some (DetachedCoro OfStartImpl (Some h) cb)" by (simp add: w0_def)
    then show False using s
      by (simp add: TaskWithExecutor_Awaiter_await_suspend_def promise_of_def bind_fault_def
          split: if_splits)
  qed
  then have h0: "heap w0 h = Some (TaskCoro (setCancelToken t p) sp)"
    by (simp add: w0_def set_promise_def)
  from await_suspend_TaskWithExecutor_Inr [OF h0 s] dh w' t show ?thesis
    by (auto simp add: w0_def set_promise_def fun_upd_twist)
qed

lemma startImpl_succeeds:
  assumes "heap w h = Some (TaskCoro p sp)" and "d \<noteq> h" and "continuation p = None"
    and "executor p = Some e"
    and "dcheckIsOn (build w) \<longrightarrow> \<not> isInlineExecutor e \<and> \<not> isQueuedImmediateExecutor e"
  shows "\<exists>w'. startImpl d cb t (TaskWithExecutor (Some h)) w = Inr (TaskWithExecutor None, w')"
proof -
  define w0 where "w0 = (set_promise h (setCancelToken t p) sp w)
      \<lparr>heap := (heap (set_promise h (setCancelToken t p) sp w))(d \<mapsto> DetachedCoro OfStartImpl (Some h) cb),
       activeFrame := Some d\<rparr>"
  have h0: "heap w0 h = Some (TaskCoro (setCancelToken t p) sp)"
    using assms(2) by (simp add: w0_def set_promise_def)
  have b0: "dcheckIsOn (build w0) \<longrightarrow> \<not> isInlineExecutor e \<and> \<not> isQueuedImmediateExecutor e"
    using assms(5) by (simp add: w0_def set_promise_def)
  obtain w1 where "TaskWithExecutor_Awaiter_await_suspend (Some h) d True w0 = Inr w1"
    using await_suspend_TaskWithExecutor_succeeds [OF h0 _ _ b0, of d True] assms(3,4) by auto
  then show ?thesis
    using assms(1)
    by (simp add: startImpl_def startImpl_coroutine_def operator_co_await_def promise_of_def
        bind_fault_def TaskWithExecutor_move_def dcheck_fails_def w0_def)
qed









lemma await_Task_Inr:
  assumes "hp \<noteq> h" and "heap w hp = Some (TaskCoro pp spp)" and "heap w h = Some (TaskCoro q sq)"
    and "await_Task nothrow (Task (Some h)) k hp w = Inr (c, w')"
  shows "c = ResumeNext h
       \<and> w' = w\<lparr>heap := (heap w)
            (hp \<mapsto> TaskCoro (await_transform_bypass
                        (if nothrow then pp\<lparr>bypassExceptionThrowing := REQUESTED\<rparr> else pp))
                     (AwaitingTask (Some h) k),
             h \<mapsto> TaskCoro ((setCancelToken (cancelToken pp) q)
                        \<lparr>executor := executor pp, continuation := Some hp,
                         asyncFrame := (asyncFrame q)\<lparr>returnAddressSet := True, parentFrame := Some hp\<rparr>\<rparr>) sq),
            activeFrame := Some h\<rparr>"
  using assms
  by (auto simp add: await_Task_def promise_of_def bind_fault_def Let_def set_promise_def
      co_withCancellation_Task_def co_viaIfAsync_Task_def setExecutor_def Task_move_def
      Task_Awaiter_await_suspend_def pushAsyncStackFrameCallerCallee_def await_transform_bypass_def
      fun_upd_twist
      split: if_splits)


lemma boundTask_facts:
  "heap (boundTask b) 1 = Some (TaskCoro (newPromise\<lparr>executor := Some (normalExecutor 7)\<rparr>) (InitialSuspend b))"
  "heap (boundTask b) 4 = None"
  "executorQueue (boundTask b) = []"
  "callback_invocations (boundTask b) = []"
  "requestContext (boundTask b) = 0"
  "cancellationRequested (boundTask b) = {}"
  "dcheckIsOn (build (boundTask b)) \<longrightarrow>
     \<not> isInlineExecutor (normalExecutor 7) \<and> \<not> isQueuedImmediateExecutor (normalExecutor 7)"
  by (simp_all add: boundTask_def taskWorld_def emptyWorld_def normalExecutor_def
      callback_invocations_def List.map_filter_def)

lemma newPromise_fields:
  "scopeExit (newPromise\<lparr>executor := e\<rparr>) = None"
  "continuation (newPromise\<lparr>executor := e\<rparr>) = None"
  "cancelToken (newPromise\<lparr>executor := e\<rparr>) = None"
  "\<not> hasCancelTokenOverride (newPromise\<lparr>executor := e\<rparr>)"
  by (simp_all add: newPromise_def)












subsection \<open>The single token override\<close>

text \<open>
  C10. Setting the cancellation token marks it as overridden even when the token is
  empty. After \<^verbatim>\<open>start\<close> with the default token the promise holds the empty token
  with the override used. After \<^verbatim>\<open>co_withCancellation\<close> with an empty token, a later
  \<^verbatim>\<open>co_withCancellation\<close> with any token changes nothing, a later start with any
  token leaves the empty token in place, and so does the await from a parent, whatever
  the parent's token is. The empty token never reports cancellation.
\<close>

theorem empty_token_consumes_override:
  assumes "heap w h = Some (TaskCoro p sp)" and "\<not> hasCancelTokenOverride p"
  shows "(\<forall>d cb this' w'. start d cb None (TaskWithExecutor (Some h)) w = Inr (this', w') \<longrightarrow>
            (\<exists>q. promise_at w' h = Some q \<and> hasCancelTokenOverride q \<and> cancelToken q = None))
       \<and> (\<forall>d this' w'. start_SemiFuture d (TaskWithExecutor (Some h)) w = Inr (this', w') \<longrightarrow>
            (\<exists>q. promise_at w' h = Some q \<and> hasCancelTokenOverride q \<and> cancelToken q = None))
       \<and> (\<forall>t. setCancelToken t (setCancelToken None p) = setCancelToken None p)
       \<and> (\<exists>w1. co_withCancellation_TaskWithExecutor None (TaskWithExecutor (Some h)) w
                  = Inr (TaskWithExecutor (Some h), TaskWithExecutor None, w1)
              \<and> co_withCancellation_Task None (Task (Some h)) w = Inr (Task (Some h), Task None, w1)
              \<and> promise_at w1 h = Some (p\<lparr>cancelToken := None, hasCancelTokenOverride := True\<rparr>)
              \<and> (\<forall>t. co_withCancellation_Task t (Task (Some h)) w1 = Inr (Task (Some h), Task None, w1))
              \<and> (\<forall>d cb t this' w'. start d cb t (TaskWithExecutor (Some h)) w1 = Inr (this', w') \<longrightarrow>
                    (\<exists>q. promise_at w' h = Some q \<and> cancelToken q = None))
              \<and> (\<forall>nothrow k hp pp spp c w'.
                    hp \<noteq> h \<and> heap w1 hp = Some (TaskCoro pp spp)
                    \<and> await_Task nothrow (Task (Some h)) k hp w1 = Inr (c, w') \<longrightarrow>
                    (\<exists>q. promise_at w' h = Some q \<and> cancelToken q = None)))
       \<and> (\<forall>v. \<not> isCancellationRequested v None)"
proof -
  define p1 where "p1 = p\<lparr>cancelToken := None, hasCancelTokenOverride := True\<rparr>"
  define w1 where "w1 = set_promise h p1 sp w"
  have sp1: "setCancelToken None p = p1" using assms(2) by (simp add: setCancelToken_def p1_def)
  have ov: "hasCancelTokenOverride p1" "cancelToken p1 = None" by (simp_all add: p1_def)
  have h1: "heap w1 h = Some (TaskCoro p1 sp)" by (simp add: w1_def set_promise_def)
  have start_any: "\<exists>q. promise_at w' h = Some q \<and> hasCancelTokenOverride q
        \<and> cancelToken q = cancelToken (setCancelToken t p')"
    if "heap v h = Some (TaskCoro p' sp)" and "startImpl d cb t (TaskWithExecutor (Some h)) v = Inr (this', w')"
    for v p' d cb t this' w'
    using startImpl_Inr [OF that] by (auto simp add: promise_at_def)
  have a: "\<forall>d cb this' w'. start d cb None (TaskWithExecutor (Some h)) w = Inr (this', w') \<longrightarrow>
            (\<exists>q. promise_at w' h = Some q \<and> hasCancelTokenOverride q \<and> cancelToken q = None)"
    using start_any [OF assms(1)] assms(2) by (fastforce simp add: start_def)
  have b: "\<forall>d this' w'. start_SemiFuture d (TaskWithExecutor (Some h)) w = Inr (this', w') \<longrightarrow>
            (\<exists>q. promise_at w' h = Some q \<and> hasCancelTokenOverride q \<and> cancelToken q = None)"
    using start_any [OF assms(1)] assms(2) by (fastforce simp add: start_SemiFuture_def)
  have c: "\<forall>t. setCancelToken t (setCancelToken None p) = setCancelToken None p"
    by (simp add: setCancelToken_def)
  have d1: "co_withCancellation_TaskWithExecutor None (TaskWithExecutor (Some h)) w
      = Inr (TaskWithExecutor (Some h), TaskWithExecutor None, w1)"
    using assms(1) sp1
    by (simp add: co_withCancellation_TaskWithExecutor_def dcheck_fails_def promise_of_def
        bind_fault_def TaskWithExecutor_move_def w1_def)
  have d2: "co_withCancellation_Task None (Task (Some h)) w = Inr (Task (Some h), Task None, w1)"
    using assms(1) sp1
    by (simp add: co_withCancellation_Task_def dcheck_fails_def promise_of_def
        bind_fault_def Task_move_def w1_def)
  have d3: "promise_at w1 h = Some p1" using h1 by (simp add: promise_at_def)
  have noop: "setCancelToken t p1 = p1" for t using ov by (simp add: setCancelToken_def)
  have d4: "\<forall>t. co_withCancellation_Task t (Task (Some h)) w1 = Inr (Task (Some h), Task None, w1)"
    using h1 noop set_promise_same [OF h1]
    by (simp add: co_withCancellation_Task_def dcheck_fails_def promise_of_def
        bind_fault_def Task_move_def)
  have d5: "\<forall>d cb t this' w'. start d cb t (TaskWithExecutor (Some h)) w1 = Inr (this', w') \<longrightarrow>
                    (\<exists>q. promise_at w' h = Some q \<and> cancelToken q = None)"
    using start_any [OF h1] noop ov by (fastforce simp add: start_def)
  have d6: "\<forall>nothrow k hp pp spp c w'.
                    hp \<noteq> h \<and> heap w1 hp = Some (TaskCoro pp spp)
                    \<and> await_Task nothrow (Task (Some h)) k hp w1 = Inr (c, w') \<longrightarrow>
                    (\<exists>q. promise_at w' h = Some q \<and> cancelToken q = None)"
  proof (intro allI impI, elim conjE)
    fix nothrow k hp pp spp c w'
    assume "hp \<noteq> h" "heap w1 hp = Some (TaskCoro pp spp)"
      "await_Task nothrow (Task (Some h)) k hp w1 = Inr (c, w')"
    from await_Task_Inr [OF this(1,2) h1 this(3)] ov
    show "\<exists>q. promise_at w' h = Some q \<and> cancelToken q = None"
      by (simp add: promise_at_def)
  qed
  have e: "\<forall>v. \<not> isCancellationRequested v None" by (simp add: isCancellationRequested_def)
  show ?thesis
    unfolding p1_def [symmetric]
    using a b c d1 d2 d3 d4 d5 d6 e by blast
qed

theorem empty_token_consumes_override_witness:
  "map_option (\<lambda>q. (hasCancelTokenOverride q, cancelToken q))
     (promise_at (snd (projr (start 4 returnsNormally None (TaskWithExecutor (Some 1))
                                (boundTask (CoReturn 42))))) 1)
     = Some (True, None)
   \<and> setCancelToken (Some 5) (setCancelToken None (newPromise\<lparr>executor := Some (normalExecutor 7)\<rparr>))
     = setCancelToken None (newPromise\<lparr>executor := Some (normalExecutor 7)\<rparr>)"
proof -
  have dh: "(4::nat) \<noteq> 1" by simp
  have h: "heap (boundTask (CoReturn 42)) 1 =
      Some (TaskCoro (newPromise\<lparr>executor := Some (normalExecutor 7)\<rparr>) (InitialSuspend (CoReturn 42)))"
    by (rule boundTask_facts)
  have inl: "dcheckIsOn (build (boundTask (CoReturn 42))) \<longrightarrow>
     \<not> isInlineExecutor (normalExecutor 7) \<and> \<not> isQueuedImmediateExecutor (normalExecutor 7)"
    by (rule boundTask_facts)
  obtain w' where s: "start 4 returnsNormally None (TaskWithExecutor (Some 1)) (boundTask (CoReturn 42))
      = Inr (TaskWithExecutor None, w')"
    using startImpl_succeeds [OF h dh newPromise_fields(2) _ inl, of returnsNormally None]
    by (auto simp add: start_def)
  note inst = empty_token_consumes_override [OF h newPromise_fields(4)]
  note first = inst [THEN conjunct1, rule_format, OF s]
  note third = inst [THEN conjunct2, THEN conjunct2, THEN conjunct1, rule_format, of "Some 5"]
  have A: "\<exists>q. promise_at w' 1 = Some q \<and> hasCancelTokenOverride q \<and> cancelToken q = None"
    by (rule first)
  have B: "setCancelToken (Some 5) (setCancelToken None (newPromise\<lparr>executor := Some (normalExecutor 7)\<rparr>))
     = setCancelToken None (newPromise\<lparr>executor := Some (normalExecutor 7)\<rparr>)"
    by (rule third)
  show ?thesis using A B s by auto
qed

subsection \<open>Awaiting a child Task\<close>









subsection \<open>Starting inline\<close>

lemma scheduling_state_frame [simp]:
  "scheduling_state (w\<lparr>heap := hp\<rparr>) = scheduling_state w"
  "scheduling_state (w\<lparr>activeFrame := a\<rparr>) = scheduling_state w"
  "scheduling_state (w\<lparr>requestContext := c\<rparr>) = scheduling_state w"
  "scheduling_state (w\<lparr>events := es\<rparr>) = scheduling_state w"
  "scheduling_state (set_promise h p sp w) = scheduling_state w"
  "scheduling_state (destroy h w) = scheduling_state w"
  "scheduling_state (popAsyncStackFrameCallee f w) = scheduling_state w"
  by (simp_all add: scheduling_state_def set_promise_def destroy_def popAsyncStackFrameCallee_def)

lemma final_dispatch_scheduling_state:
  assumes "final_dispatch c w = Some y"
  shows "\<forall>n w'. y = Inr (n, w') \<longrightarrow> scheduling_state w' = scheduling_state w"
  by (rule final_dispatch.raw_induct
        [where P = "\<lambda>c w y. \<forall>n w'. y = Inr (n, w') \<longrightarrow> scheduling_state w' = scheduling_state w",
         OF _ assms])
     (auto split: final_call.splits option.splits coroutine.splits Try.splits if_splits)

lemma final_suspend_scheduling_state:
  assumes "final_suspend h w = Some (Inr (c, w'))"
  shows "scheduling_state w' = scheduling_state w"
proof -
  from assms obtain p n where
    "final_dispatch (AwaitSuspend h) (set_promise h p FinalSuspend w) = Some (Inr (Some n, w'))"
    by (auto simp add: final_suspend_def FinalAwaiter_await_suspend_def promise_of_def
        split: option.splits coroutine.splits sum.splits prod.splits)
  from final_dispatch_scheduling_state [OF this] show ?thesis by simp
qed

lemma update_promise_scheduling_state:
  "update_promise h f w = Inr w' \<Longrightarrow> scheduling_state w' = scheduling_state w"
  by (auto simp add: update_promise_def promise_of_def bind_fault_def
      split: option.splits coroutine.splits)

lemma await_Task_scheduling_state:
  "await_Task nothrow t k h w = Inr (c, w') \<Longrightarrow> scheduling_state w' = scheduling_state w"
  by (auto simp add: await_Task_def promise_of_def bind_fault_def Let_def
      co_withCancellation_Task_def co_viaIfAsync_Task_def setExecutor_def Task_move_def
      Task_Awaiter_await_suspend_def pushAsyncStackFrameCallerCallee_def
      split: option.splits coroutine.splits sum.splits if_splits)

lemma run_body_scheduling_state:
  "run_body b h w = Some (Inr (c, w')) \<Longrightarrow> scheduling_state w' = scheduling_state w"
proof (induction b arbitrary: w)
  case (CoSafePoint b)
  then show ?case
    using final_suspend_scheduling_state
    by (fastforce simp add: promise_of_def do_safe_point_def
        split: option.splits coroutine.splits if_splits)
next
  case (CoAttachScopeExit se b)
  then show ?case
    using update_promise_scheduling_state by (fastforce split: sum.splits)
next
  case (SetRequestContext x b)
  then show ?case by fastforce
next
  case (CoSuspend b)
  then show ?case
    by (auto simp add: promise_of_def split: option.splits coroutine.splits)
next
  case (CoAwaitTask nothrow t k)
  then show ?case using await_Task_scheduling_state by simp
qed (use final_suspend_scheduling_state update_promise_scheduling_state
      in \<open>fastforce split: sum.splits\<close>)+

lemma detached_resume_scheduling_state:
  "detached_resume kind a cb d w = Inr (c, w') \<Longrightarrow> scheduling_state w' = scheduling_state w"
  by (cases kind)
     (auto simp add: detached_resume_def TaskWithExecutor_Awaiter_await_resume_try_def
      InlineTryAwaitable_await_resume_def promise_of_def bind_fault_def invoke_callback_def
      split: option.splits coroutine.splits if_splits)

lemma resume_scheduling_state:
  "resume h w = Some (Inr (c, w')) \<Longrightarrow> scheduling_state w' = scheduling_state w"
proof (cases "heap w h")
  case None
  then show "resume h w = Some (Inr (c, w')) \<Longrightarrow> ?thesis" by (simp add: resume_def)
next
  case (Some co)
  assume r: "resume h w = Some (Inr (c, w'))"
  show ?thesis
  proof (cases co)
    case (TaskCoro p sp)
    show ?thesis
    proof (cases sp)
      case (AwaitingTask a k)
      with r Some TaskCoro obtain t v where
        "Task_Awaiter_await_resume_try a w = Inr (t, None, v)" "run_body (k t) h v = Some (Inr (c, w'))"
        by (auto simp add: resume_def Task_Awaiter_await_resume_try_def bind_fault_def
            split: sum.splits if_splits prod.splits)
      moreover from this(1) have "scheduling_state v = scheduling_state w"
        by (auto simp add: Task_Awaiter_await_resume_try_def promise_of_def bind_fault_def
            split: option.splits coroutine.splits if_splits)
      ultimately show ?thesis using run_body_scheduling_state by fastforce
    qed (use r Some TaskCoro run_body_scheduling_state in \<open>auto simp add: resume_def\<close>)
  next
    case (DetachedCoro kind a cb)
    then show ?thesis using r Some detached_resume_scheduling_state
      by (auto simp add: resume_def)
  qed (use r Some in \<open>auto simp add: resume_def\<close>)
qed

lemma symmetric_transfer_scheduling_state:
  assumes "symmetric_transfer h w = Some y"
  shows "\<forall>n w'. y = Inr (n, w') \<longrightarrow> scheduling_state w' = scheduling_state w"
proof (rule symmetric_transfer.raw_induct
        [where P = "\<lambda>h w y. \<forall>n w'. y = Inr (n, w') \<longrightarrow> scheduling_state w' = scheduling_state w",
         OF _ assms])
  fix f h w y
  assume IH: "\<And>h w y. f h w = Some y \<Longrightarrow>
      \<forall>n w'. y = Inr (n, w') \<longrightarrow> scheduling_state w' = scheduling_state w"
    and step: "(case heap w h of
        None \<Rightarrow>
          (case resume h w of None \<Rightarrow> None | Some (Inl e) \<Rightarrow> Some (Inl e)
           | Some (Inr (ResumeNext n, w')) \<Rightarrow> f n w'
           | Some (Inr (ReturnToResumer, w')) \<Rightarrow> Some (Inr (None, w')))
      | Some (ScopeExitCoro sep) \<Rightarrow> Some (Inr (Some h, w))
      | Some OtherCoro \<Rightarrow> Some (Inr (Some h, w))
      | Some _ \<Rightarrow>
          (case resume h w of None \<Rightarrow> None | Some (Inl e) \<Rightarrow> Some (Inl e)
           | Some (Inr (ResumeNext n, w')) \<Rightarrow> f n w'
           | Some (Inr (ReturnToResumer, w')) \<Rightarrow> Some (Inr (None, w')))) = Some y"
  have via_resume: "\<forall>n w'. y = Inr (n, w') \<longrightarrow> scheduling_state w' = scheduling_state w"
    if r: "(case resume h w of None \<Rightarrow> None | Some (Inl e) \<Rightarrow> Some (Inl e)
           | Some (Inr (ResumeNext n, w')) \<Rightarrow> f n w'
           | Some (Inr (ReturnToResumer, w')) \<Rightarrow> Some (Inr (None, w'))) = Some y"
  proof (cases "resume h w")
    case None
    with r show ?thesis by simp
  next
    case (Some res)
    show ?thesis
    proof (cases res)
      case (Inl e)
      with r Some show ?thesis by auto
    next
      case (Inr cw)
      obtain c v where cw: "cw = (c, v)" by (cases cw)
      have sv: "scheduling_state v = scheduling_state w"
        using resume_scheduling_state Some Inr cw by simp
      show ?thesis
      proof (cases c)
        case (ResumeNext n)
        with r Some Inr cw have "f n v = Some y" by simp
        from IH [OF this] sv show ?thesis by simp
      next
        case ReturnToResumer
        with r Some Inr cw sv show ?thesis by auto
      qed
    qed
  qed
  show "\<forall>n w'. y = Inr (n, w') \<longrightarrow> scheduling_state w' = scheduling_state w"
  proof (cases "heap w h")
    case None
    with step via_resume show ?thesis by simp
  next
    case (Some co)
    with step via_resume show ?thesis by (cases co) auto
  qed
qed

lemma InlineTryAwaitable_await_suspend_scheduling_state:
  "InlineTryAwaitable_await_suspend a k w = Inr (n, w') \<Longrightarrow> scheduling_state w' = scheduling_state w"
  by (auto simp add: InlineTryAwaitable_await_suspend_def promise_of_def bind_fault_def
      pushAsyncStackFrameCallerCallee_def
      split: option.splits coroutine.splits if_splits)

lemma startInlineImpl_coroutine_scheduling_state:
  assumes "startInlineImpl_coroutine d task cb w = Some (Inr w')"
  shows "scheduling_state w' = scheduling_state w"
proof -
  define w0 where "w0 = w\<lparr>heap := (heap w)(d \<mapsto> DetachedCoro OfStartInlineImpl (TaskWithExecutor_coro task) cb),
                activeFrame := Some d\<rparr>"
  from assms obtain n w1 stop w2 where
    a: "InlineTryAwaitable_await_suspend (TaskWithExecutor_coro task) d w0 = Inr (n, w1)"
    and b: "symmetric_transfer n w1 = Some (Inr (stop, w2))"
    and c: "w' = w2\<lparr>activeFrame := activeFrame w\<rparr>"
    by (auto simp add: startInlineImpl_coroutine_def w0_def
        split: sum.splits option.splits prod.splits)
  have "scheduling_state w1 = scheduling_state w0"
    using InlineTryAwaitable_await_suspend_scheduling_state [OF a] .
  moreover have "scheduling_state w2 = scheduling_state w1"
    using symmetric_transfer_scheduling_state [OF b] by simp
  ultimately show ?thesis using c by (simp add: w0_def)
qed

text \<open>
  C8. \<^verbatim>\<open>startInlineUnsafe\<close> runs the task on the calling thread, up to its first
  suspension or to its end. Whatever the body is, when the call returns the ambient
  request context is the one that was current when the call was made: a context that
  the body installed is not left in the caller. The work pending on the executors and
  the cancellation states are as before, and the handle is left empty.
\<close>

theorem startInlineUnsafe_restores_request_context:
  assumes "startInlineUnsafe d cb t this w = Some (Inr (this', w'))"
  shows "requestContext w' = requestContext w
       \<and> executorQueue w' = executorQueue w
       \<and> cancellationRequested w' = cancellationRequested w
       \<and> this' = TaskWithExecutor None"
proof -
  from assms obtain h p sp w3 where
    a: "startInlineImpl_coroutine d (TaskWithExecutor (TaskWithExecutor_coro this)) cb
          ((set_promise h (setCancelToken t p) sp w)
             \<lparr>requestContext := requestContext (set_promise h (setCancelToken t p) sp w)\<rparr>)
        = Some (Inr w3)"
    and b: "w' = w3\<lparr>requestContext := requestContext (set_promise h (setCancelToken t p) sp w)\<rparr>"
    and c: "this' = TaskWithExecutor None"
    by (auto simp add: startInlineUnsafe_def startInlineImpl_def Let_def TaskWithExecutor_move_def
        split: sum.splits option.splits prod.splits)
  have "scheduling_state w3 = scheduling_state w"
    using startInlineImpl_coroutine_scheduling_state [OF a] by simp
  then have "scheduling_state w' = scheduling_state w" using b by simp
  moreover have "requestContext w' = requestContext w" using b by (simp add: set_promise_def)
  ultimately show ?thesis using c by (simp add: scheduling_state_def)
qed

lemma startInlineUnsafe_suspending_example:
  "\<exists>w'. startInlineUnsafe 4 returnsNormally None (TaskWithExecutor (Some 1))
          (boundTask (SetRequestContext 9 (CoSuspend (CoReturn 42))))
        = Some (Inr (TaskWithExecutor None, w'))
      \<and> suspended_at w' 1 = Some (SuspendedAt (CoReturn 42))"
proof -
  define p where "p = newPromise\<lparr>executor := Some (normalExecutor 7)\<rparr>"
  define b where "b = SetRequestContext 9 (CoSuspend (CoReturn 42))"
  define p1 where "p1 = (setCancelToken None p)
      \<lparr>continuation := Some 4,
       asyncFrame := (asyncFrame (setCancelToken None p))\<lparr>returnAddressSet := True, parentFrame := Some 4\<rparr>\<rparr>"
  define w0 where "w0 = (set_promise 1 (setCancelToken None p) (InitialSuspend b) (boundTask b))
      \<lparr>heap := (heap (set_promise 1 (setCancelToken None p) (InitialSuspend b) (boundTask b)))
                 (4 \<mapsto> DetachedCoro OfStartInlineImpl (Some 1) returnsNormally),
        activeFrame := Some 4\<rparr>"
  define w1 where "w1 = set_promise 1 p1 (InitialSuspend b) (w0\<lparr>activeFrame := Some 1\<rparr>)"
  define w2 where "w2 = set_promise 1 (await_transform_bypass p1) (SuspendedAt (CoReturn 42))
      (w1\<lparr>requestContext := 9\<rparr>)"
  have h: "heap (boundTask b) 1 = Some (TaskCoro p (InitialSuspend b))"
    unfolding p_def by (rule boundTask_facts)
  have s: "InlineTryAwaitable_await_suspend (Some 1) 4 w0 = Inr (1, w1)"
    by (simp add: InlineTryAwaitable_await_suspend_def dcheck_fails_def promise_of_def
        bind_fault_def pushAsyncStackFrameCallerCallee_def w0_def w1_def p1_def set_promise_def
        p_def newPromise_def)
  have h1: "heap w1 1 = Some (TaskCoro p1 (InitialSuspend b))" by (simp add: w1_def set_promise_def)
  have r: "resume 1 w1 = Some (Inr (ReturnToResumer, w2))"
    using h1 by (simp add: resume_def b_def promise_of_def w2_def set_promise_def)
  have t: "symmetric_transfer 1 w1 = Some (Inr (None, w2))"
    using h1 r by (subst symmetric_transfer.simps) simp
  have "startInlineUnsafe 4 returnsNormally None (TaskWithExecutor (Some 1)) (boundTask b)
      = Some (Inr (TaskWithExecutor None,
          w2\<lparr>activeFrame := activeFrame (boundTask b), requestContext := requestContext (boundTask b)\<rparr>))"
    using h s t
    by (simp add: startInlineUnsafe_def startInlineImpl_def promise_of_def Let_def
        TaskWithExecutor_move_def startInlineImpl_coroutine_def w0_def set_promise_def)
  moreover have "suspended_at (w2\<lparr>activeFrame := activeFrame (boundTask b),
      requestContext := requestContext (boundTask b)\<rparr>) 1 = Some (SuspendedAt (CoReturn 42))"
    by (simp add: suspended_at_def w2_def set_promise_def)
  ultimately show ?thesis unfolding b_def by blast
qed

theorem startInlineUnsafe_restores_request_context_witness:
  "map_option (map_sum id (\<lambda>x. (requestContext (snd x), executorQueue (snd x), suspended_at (snd x) 1)))
     (startInlineUnsafe 4 returnsNormally None (TaskWithExecutor (Some 1))
        (boundTask (SetRequestContext 9 (CoSuspend (CoReturn 42)))))
     = Some (Inr (0, [], Some (SuspendedAt (CoReturn 42))))"
proof -
  from startInlineUnsafe_suspending_example obtain w' where
    a: "startInlineUnsafe 4 returnsNormally None (TaskWithExecutor (Some 1))
          (boundTask (SetRequestContext 9 (CoSuspend (CoReturn 42))))
        = Some (Inr (TaskWithExecutor None, w'))"
    and b: "suspended_at w' 1 = Some (SuspendedAt (CoReturn 42))"
    by blast
  from startInlineUnsafe_restores_request_context [OF a]
  have "requestContext w' = 0" "executorQueue w' = []"
    by (simp_all add: boundTask_facts)
  then show ?thesis using a b by simp
qed

end
